theory Spec2Isabelle
  imports Main "HOL-Library.Char_ord" "HOL-Library.List_Lexorder"
begin

section \<open>Draw records\<close>

text \<open>
  A draw record is the dictionary built by the response parsers of
  \<^verbatim>\<open>src/crawler/vietlott.py\<close>: the keys \<^verbatim>\<open>date\<close>, \<^verbatim>\<open>id\<close>, \<^verbatim>\<open>result\<close> and
  \<^verbatim>\<open>process_time\<close>. The key \<^verbatim>\<open>id\<close> is the field \<open>draw_id\<close> here, the name the
  source gives to the value it stores there. The result is a list of integers for the
  numeric products and a list of strings for the Max 3D products. A fetched record
  carries the fifth key \<^verbatim>\<open>prev_draw_id\<close>, which is \<^verbatim>\<open>None\<close> or a string.

  Python strings are modelled as \<open>string\<close>: the characters are the code points
  0 to 255, and strings compare as Python compares them, lexicographically by code
  point. The content of a response, before the HTML parser has read it, is a list of
  code points of any size.
\<close>

datatype draw_result = Numbers "int list" | Triplets "string list"

record draw_record =
  date :: string
  draw_id :: string
  result :: draw_result
  process_time :: string

record fetched = draw_record +
  prev_draw_id :: "string option"

section \<open>Configuration\<close>

text \<open>
  The products of \<^verbatim>\<open>src/config.py\<close>. The two addresses of a configuration
  (\<^verbatim>\<open>url\<close>, \<^verbatim>\<open>result_page_url\<close>) are left out: only the transport reads them.
  \<open>data_file\<close> is the name of the store file in the data directory.
\<close>

record lottery_config =
  name :: string
  min_val :: int
  max_val :: int
  numbers_to_pick :: int
  data_file :: string
  sms_code :: string
  has_bonus :: bool
  product_type :: string

definition POWER_655_CONFIG :: lottery_config where
  "POWER_655_CONFIG = \<lparr>name = ''power_655'', min_val = 1, max_val = 55, numbers_to_pick = 6,
     data_file = ''power655.jsonl'', sms_code = ''655'', has_bonus = True,
     product_type = ''power''\<rparr>"

definition POWER_645_CONFIG :: lottery_config where
  "POWER_645_CONFIG = \<lparr>name = ''power_645'', min_val = 1, max_val = 45, numbers_to_pick = 6,
     data_file = ''power645.jsonl'', sms_code = ''645'', has_bonus = False,
     product_type = ''power''\<rparr>"

definition MAX3D_CONFIG :: lottery_config where
  "MAX3D_CONFIG = \<lparr>name = ''max_3d'', min_val = 0, max_val = 999, numbers_to_pick = 20,
     data_file = ''max3d.jsonl'', sms_code = ''3D'', has_bonus = False,
     product_type = ''max3d''\<rparr>"

definition MAX3D_PRO_CONFIG :: lottery_config where
  "MAX3D_PRO_CONFIG = \<lparr>name = ''max_3d_pro'', min_val = 0, max_val = 999, numbers_to_pick = 20,
     data_file = ''max3d_pro.jsonl'', sms_code = ''3DPRO'', has_bonus = False,
     product_type = ''max3d''\<rparr>"

definition LOTTO_535_CONFIG :: lottery_config where
  "LOTTO_535_CONFIG = \<lparr>name = ''lotto_535'', min_val = 1, max_val = 35, numbers_to_pick = 5,
     data_file = ''lotto535.jsonl'', sms_code = ''535'', has_bonus = True,
     product_type = ''power''\<rparr>"

definition KENO_CONFIG :: lottery_config where
  "KENO_CONFIG = \<lparr>name = ''keno'', min_val = 1, max_val = 80, numbers_to_pick = 20,
     data_file = ''keno.jsonl'', sms_code = ''KENO'', has_bonus = False,
     product_type = ''keno''\<rparr>"

definition PRODUCTS :: "string \<rightharpoonup> lottery_config" where
  "PRODUCTS = map_of
     [(''655'', POWER_655_CONFIG), (''645'', POWER_645_CONFIG), (''3d'', MAX3D_CONFIG),
      (''3dpro'', MAX3D_PRO_CONFIG), (''535'', LOTTO_535_CONFIG), (''keno'', KENO_CONFIG)]"

section \<open>Text\<close>

text \<open>
  The string methods the parsers call, on the code points 0 to 255. \<open>\d\<close> of a
  \<^verbatim>\<open>re\<close> pattern on \<^verbatim>\<open>str\<close> matches the decimal digits, which in this range are
  \<^verbatim>\<open>0\<close> to \<^verbatim>\<open>9\<close>. \<^verbatim>\<open>str.isdigit\<close> is true of more characters: of the decimal
  digits and of the superscript digits U+00B2, U+00B3 and U+00B9. \<^verbatim>\<open>str.strip\<close>
  removes the white space of \<^verbatim>\<open>str.isspace\<close>: U+0009 to U+000D, U+001C to U+0020,
  U+0085 and U+00A0.
\<close>

definition isdecimal_char :: "char \<Rightarrow> bool" where
  "isdecimal_char c = (c \<in> set ''0123456789'')"

definition isdigit_char :: "char \<Rightarrow> bool" where
  "isdigit_char c = (isdecimal_char c \<or> c \<in> set [CHR 0xB2, CHR 0xB3, CHR 0xB9])"

definition isspace_char :: "char \<Rightarrow> bool" where
  "isspace_char c = (c \<in> set [CHR 0x09, CHR 0x0A, CHR 0x0B, CHR 0x0C, CHR 0x0D,
     CHR 0x1C, CHR 0x1D, CHR 0x1E, CHR 0x1F, CHR 0x20, CHR 0x85, CHR 0xA0])"

text \<open>\<^verbatim>\<open>text.isdigit()\<close>: every character is a digit and there is at least one.\<close>

definition isdigit :: "string \<Rightarrow> bool" where
  "isdigit s = (s \<noteq> [] \<and> list_all isdigit_char s)"

text \<open>\<^verbatim>\<open>text.strip()\<close>.\<close>

definition strip :: "string \<Rightarrow> string" where
  "strip s = rev (dropWhile isspace_char (rev (dropWhile isspace_char s)))"

text \<open>
  The exceptions of the model: \<^verbatim>\<open>ValueError\<close>, which \<^verbatim>\<open>int\<close> and \<^verbatim>\<open>strptime\<close> raise,
  and \<^verbatim>\<open>UnicodeEncodeError\<close>, which encoding a string as UTF-8 raises on a surrogate
  code point.
\<close>

datatype exn = ValueError | UnicodeEncodeError

definition digit_value :: "char \<Rightarrow> nat" where
  "digit_value c = of_char c - 48"

definition nat_of_digits :: "string \<Rightarrow> nat" where
  "nat_of_digits s = foldl (\<lambda>a c. 10 * a + digit_value c) 0 s"

text \<open>
  \<^verbatim>\<open>int(text)\<close> on a text that passed \<^verbatim>\<open>isdigit\<close> (no sign, no white space, no
  underscore). \<^verbatim>\<open>int\<close> reads decimal digits only and raises \<^verbatim>\<open>ValueError\<close> on a
  superscript digit; it also raises \<^verbatim>\<open>ValueError\<close> on more than 4300 digits, the
  default of \<^verbatim>\<open>sys.int_max_str_digits\<close>.
\<close>

definition int_max_str_digits :: nat where
  "int_max_str_digits = 4300"

definition int_of_text :: "string \<Rightarrow> exn + int" where
  "int_of_text s =
     (if s \<noteq> [] \<and> list_all isdecimal_char s \<and> length s \<le> int_max_str_digits
      then Inr (int (nat_of_digits s)) else Inl ValueError)"

text \<open>\<^verbatim>\<open>numbers[:k]\<close>; a negative \<open>k\<close> counts from the end.\<close>

definition slice_to :: "int \<Rightarrow> 'a list \<Rightarrow> 'a list" where
  "slice_to k xs = (if 0 \<le> k then take (nat k) xs else take (length xs - nat (- k)) xs)"

section \<open>The patterns\<close>

text \<open>
  \<^verbatim>\<open>re.search(r"#(\d+)", text)\<close>: the leftmost \<^verbatim>\<open>#\<close> that a digit follows; the group is
  the longest run of digits after it.
\<close>

fun search_draw_id :: "string \<Rightarrow> string option" where
  "search_draw_id [] = None"
| "search_draw_id (c # cs) =
     (if c = CHR ''#'' \<and> takeWhile isdecimal_char cs \<noteq> [] then Some (takeWhile isdecimal_char cs)
      else search_draw_id cs)"

text \<open>
  \<^verbatim>\<open>re.search(r"(\d{2}/\d{2}/\d{4})", text)\<close>: the leftmost ten characters of the shape
  two digits, slash, two digits, slash, four digits.
\<close>

definition date_shape :: "string \<Rightarrow> bool" where
  "date_shape s =
     (length s = 10 \<and> list_all isdecimal_char (take 2 s) \<and> s ! 2 = CHR ''/'' \<and>
      list_all isdecimal_char (take 2 (drop 3 s)) \<and> s ! 5 = CHR ''/'' \<and>
      list_all isdecimal_char (drop 6 s))"

fun search_date :: "string \<Rightarrow> string option" where
  "search_date [] = None"
| "search_date (c # cs) =
     (if date_shape (take 10 (c # cs)) then Some (take 10 (c # cs)) else search_date cs)"

text \<open>
  \<^verbatim>\<open>re.search(r"ClientDrawResult\(['\"](\d+)['\"]\)", href)\<close>. \<open>match_prev\<close> matches the
  pattern at the start of the text: the digits are taken greedily, and a quote and the
  closing bracket must follow them.
\<close>

definition is_quote :: "char \<Rightarrow> bool" where
  "is_quote c = (c \<in> set [CHR 0x27, CHR 0x22])"

definition match_prev :: "string \<Rightarrow> string option" where
  "match_prev s =
     (if take 17 s = ''ClientDrawResult(''
      then
        (case drop 17 s of
           [] \<Rightarrow> None
         | q # rest \<Rightarrow>
             if is_quote q \<and> takeWhile isdecimal_char rest \<noteq> [] then
               (case dropWhile isdecimal_char rest of
                  q' # p # _ \<Rightarrow>
                    if is_quote q' \<and> p = CHR '')'' then Some (takeWhile isdecimal_char rest)
                    else None
                | _ \<Rightarrow> None)
             else None)
      else None)"

fun search_prev :: "string \<Rightarrow> string option" where
  "search_prev [] = None"
| "search_prev (c # cs) =
     (case match_prev (c # cs) of Some d \<Rightarrow> Some d | None \<Rightarrow> search_prev cs)"

section \<open>Dates\<close>

text \<open>
  \<^verbatim>\<open>datetime.strptime(date_str, "%d/%m/%Y")\<close> on the ten characters the date pattern
  found: the day is 01 to 31, the month 01 to 12, the year 0001 to 9999, and the day
  must exist in that month of that year; otherwise \<^verbatim>\<open>ValueError\<close>.
\<close>

definition is_leap :: "nat \<Rightarrow> bool" where
  "is_leap y = (if y mod 400 = 0 then True else if y mod 100 = 0 then False else y mod 4 = 0)"

definition days_in_month :: "nat \<Rightarrow> nat \<Rightarrow> nat" where
  "days_in_month y m =
     (if m = 2 then (if is_leap y then 29 else 28)
      else if m \<in> set [4, 6, 9, 11] then 30 else 31)"

definition strptime :: "string \<Rightarrow> exn + nat \<times> nat \<times> nat" where
  "strptime date_str =
     (let d = nat_of_digits (take 2 date_str);
          m = nat_of_digits (take 2 (drop 3 date_str));
          y = nat_of_digits (drop 6 date_str)
      in if date_shape date_str \<and> 1 \<le> y \<and> 1 \<le> m \<and> m \<le> 12 \<and> 1 \<le> d \<and> d \<le> days_in_month y m
         then Inr (y, m, d) else Inl ValueError)"

text \<open>
  \<^verbatim>\<open>strftime("%Y-%m-%d")\<close>, as CPython gives it with the C library of Linux: the
  year in decimal with no leading zero (\<^verbatim>\<open>999-01-01\<close> for the first day of the year
  999), month and day on two digits. The text has ten characters exactly when the
  year has four digits.
\<close>

fun decimal :: "nat \<Rightarrow> string" where
  "decimal n = (if n < 10 then [char_of (48 + n)] else decimal (n div 10) @ [char_of (48 + n mod 10)])"

definition zero_pad :: "nat \<Rightarrow> string \<Rightarrow> string" where
  "zero_pad w s = replicate (w - length s) CHR ''0'' @ s"

definition strftime :: "nat \<times> nat \<times> nat \<Rightarrow> string" where
  "strftime ymd =
     (case ymd of (y, m, d) \<Rightarrow>
        decimal y @ ''-'' @ zero_pad 2 (decimal m) @ ''-'' @ zero_pad 2 (decimal d))"

text \<open>
  For comparison with the order of the date texts, which is what the code sorts by:
  the order of the calendar on year, month and day, and the dates of the calendar
  whose year has four digits.
\<close>

definition calendar_le :: "nat \<times> nat \<times> nat \<Rightarrow> nat \<times> nat \<times> nat \<Rightarrow> bool" where
  "calendar_le a b =
     (case a of (y, m, d) \<Rightarrow> case b of (y', m', d') \<Rightarrow>
        y < y' \<or> y = y' \<and> (m < m' \<or> m = m' \<and> d \<le> d'))"

definition four_digit_date :: "nat \<times> nat \<times> nat \<Rightarrow> bool" where
  "four_digit_date ymd =
     (case ymd of (y, m, d) \<Rightarrow>
        1000 \<le> y \<and> y \<le> 9999 \<and> 1 \<le> m \<and> m \<le> 12 \<and> 1 \<le> d \<and> d \<le> days_in_month y m)"

section \<open>The parsed document\<close>

text \<open>
  What \<^verbatim>\<open>BeautifulSoup(html_content, "lxml")\<close> returns: a tree of tags, each with its
  name, its classes, its other attributes and its children, and of strings. The
  document itself is the root tag. Comments and the like are left out: they are no
  tags and \<^verbatim>\<open>get_text\<close> skips them.
\<close>

datatype node =
  Tag string "string list" "(string \<times> string) list" "node list"
| NavigableString string

text \<open>\<^verbatim>\<open>tag.get_text()\<close>: the strings below the tag, concatenated in document order.\<close>

fun get_text :: "node \<Rightarrow> string" where
  "get_text (NavigableString s) = s"
| "get_text (Tag n cs as ks) = concat (map get_text ks)"

text \<open>The nodes below a node, in document order.\<close>

fun descendants :: "node \<Rightarrow> node list" where
  "descendants (NavigableString s) = []"
| "descendants (Tag n cs as ks) = concat (map (\<lambda>k. k # descendants k) ks)"

text \<open>
  The selectors the parsers use: a tag name (\<^verbatim>\<open>h5\<close>, \<^verbatim>\<open>span\<close>), a class
  (\<^verbatim>\<open>.day_so_ket_qua_v2\<close>), a tag name with a class (\<^verbatim>\<open>span.bong_tron\<close>).
\<close>

datatype selector = ByTag string | ByClass string | ByTagClass string string

fun matches :: "selector \<Rightarrow> node \<Rightarrow> bool" where
  "matches sel (NavigableString s) = False"
| "matches (ByTag t) (Tag n cs as ks) = (n = t)"
| "matches (ByClass c) (Tag n cs as ks) = (c \<in> set cs)"
| "matches (ByTagClass t c) (Tag n cs as ks) = (n = t \<and> c \<in> set cs)"

text \<open>
  \<^verbatim>\<open>tag.select(sel)\<close>, the matching tags below \<open>tag\<close> in document order, and
  \<^verbatim>\<open>tag.select_one(sel)\<close>, the first of them or \<^verbatim>\<open>None\<close>.
\<close>

definition select :: "selector \<Rightarrow> node \<Rightarrow> node list" where
  "select sel root = filter (matches sel) (descendants root)"

definition select_one :: "selector \<Rightarrow> node \<Rightarrow> node option" where
  "select_one sel root = (case select sel root of [] \<Rightarrow> None | x # _ \<Rightarrow> Some x)"

text \<open>\<^verbatim>\<open>tag.get(key, default)\<close>.\<close>

fun get_attr :: "node \<Rightarrow> string \<Rightarrow> string \<Rightarrow> string" where
  "get_attr (Tag n cs as ks) key dflt = (case map_of as key of None \<Rightarrow> dflt | Some v \<Rightarrow> v)"
| "get_attr (NavigableString s) key dflt = dflt"

section \<open>The response parsers\<close>

text \<open>
  The body of the \<^verbatim>\<open>try\<close> block of a parser returns a fetched record or \<^verbatim>\<open>None\<close>, or
  raises (\<open>Inl\<close>). Lines 104 to 124 and 189 to 209, the same in both parsers: draw id
  and date from the first \<^verbatim>\<open>h5\<close>. A tag is true in \<^verbatim>\<open>if not h5\<close> whatever it holds.
\<close>

definition parse_header :: "node \<Rightarrow> exn + (string \<times> string) option" where
  "parse_header soup =
     (case select_one (ByTag ''h5'') soup of
        None \<Rightarrow> Inr None
      | Some h5 \<Rightarrow>
          (case search_draw_id (get_text h5) of
             None \<Rightarrow> Inr None
           | Some did \<Rightarrow>
               (case search_date (get_text h5) of
                  None \<Rightarrow> Inr None
                | Some date_str \<Rightarrow>
                    (case strptime date_str of
                       Inl e \<Rightarrow> Inl e
                     | Inr ymd \<Rightarrow> Inr (Some (did, strftime ymd))))))"

text \<open>Lines 150 to 156 and 230 to 236: the id in the link to the previous draw.\<close>

definition find_prev_draw_id :: "node \<Rightarrow> string option" where
  "find_prev_draw_id soup =
     (case select_one (ByTagClass ''a'' ''btn_chuyendulieu_left'') soup of
        None \<Rightarrow> None
      | Some prev_link \<Rightarrow> search_prev (get_attr prev_link ''href'' ''''))"

text \<open>Lines 127 to 129: the first result container, by either class.\<close>

definition result_container :: "node \<Rightarrow> node option" where
  "result_container soup =
     (case select_one (ByClass ''day_so_ket_qua_v2'') soup of
        Some result_div \<Rightarrow> Some result_div
      | None \<Rightarrow> select_one (ByClass ''day_so_ket_qua'') soup)"

text \<open>The stripped texts of the tags a selector finds below a tag.\<close>

definition texts :: "selector \<Rightarrow> node \<Rightarrow> string list" where
  "texts sel root = map (\<lambda>span. strip (get_text span)) (select sel root)"

text \<open>
  Lines 136 to 140: the loop over the span texts. A text that passes \<^verbatim>\<open>isdigit\<close> is
  converted; the first conversion that raises ends the loop.
\<close>

fun collect_numbers :: "string list \<Rightarrow> exn + int list" where
  "collect_numbers [] = Inr []"
| "collect_numbers (t # ts) =
     (if isdigit t then
        (case int_of_text t of
           Inl e \<Rightarrow> Inl e
         | Inr n \<Rightarrow> (case collect_numbers ts of Inl e \<Rightarrow> Inl e | Inr ns \<Rightarrow> Inr (n # ns)))
      else collect_numbers ts)"

definition parse_power_body :: "lottery_config \<Rightarrow> string \<Rightarrow> node \<Rightarrow> exn + fetched option" where
  "parse_power_body config now soup =
     (case parse_header soup of
        Inl e \<Rightarrow> Inl e
      | Inr None \<Rightarrow> Inr None
      | Inr (Some (did, date_formatted)) \<Rightarrow>
          (case result_container soup of
             None \<Rightarrow> Inr None
           | Some result_div \<Rightarrow>
               (case collect_numbers (texts (ByTag ''span'') result_div) of
                  Inl e \<Rightarrow> Inl e
                | Inr numbers \<Rightarrow>
                    if int (length numbers) < numbers_to_pick config then Inr None
                    else Inr (Some \<lparr>date = date_formatted, draw_id = did,
                           result = Numbers (slice_to (numbers_to_pick config) numbers),
                           process_time = now, prev_draw_id = find_prev_draw_id soup\<rparr>))))"

text \<open>
  Lines 216 to 223: what one result container adds to the list of 3D numbers. The
  texts of its \<^verbatim>\<open>span.bong_tron\<close> tags are joined when there are three of them and
  each passes \<^verbatim>\<open>isdigit\<close>.
\<close>

definition triplet_of :: "node \<Rightarrow> string list" where
  "triplet_of result_div =
     (let digits = texts (ByTagClass ''span'' ''bong_tron'') result_div
      in if digits \<noteq> [] \<and> list_all isdigit digits \<and> length digits = 3 then [concat digits]
         else [])"

definition max3d_numbers :: "node \<Rightarrow> string list" where
  "max3d_numbers soup = concat (map triplet_of (select (ByClass ''day_so_ket_qua_v2'') soup))"

definition parse_max3d_body :: "lottery_config \<Rightarrow> string \<Rightarrow> node \<Rightarrow> exn + fetched option" where
  "parse_max3d_body config now soup =
     (case parse_header soup of
        Inl e \<Rightarrow> Inl e
      | Inr None \<Rightarrow> Inr None
      | Inr (Some (did, date_formatted)) \<Rightarrow>
          if length (max3d_numbers soup) < 2 then Inr None
          else Inr (Some \<lparr>date = date_formatted, draw_id = did,
                 result = Triplets (max3d_numbers soup),
                 process_time = now, prev_draw_id = find_prev_draw_id soup\<rparr>))"

text \<open>
  \<^verbatim>\<open>except Exception\<close>: what the body raises is logged and the parser returns
  \<^verbatim>\<open>None\<close>.
\<close>

definition except_Exception :: "exn + 'a option \<Rightarrow> exn + 'a option" where
  "except_Exception body = (case body of Inl e \<Rightarrow> Inr None | Inr r \<Rightarrow> Inr r)"

text \<open>
  The content of a response, \<^verbatim>\<open>html_content\<close>, is a Python string: a list of code
  points, each below \<^verbatim>\<open>0x110000\<close>. \<^verbatim>\<open>response.json()\<close> decodes an escaped surrogate of the body to
  that code point (\<^verbatim>\<open>0xD800\<close> to \<^verbatim>\<open>0xDFFF\<close>), so a content may hold surrogates.
\<close>

type_synonym html = "nat list"

text \<open>
  The two parsers. Their first statement, \<^verbatim>\<open>soup = BeautifulSoup(html_content, "lxml")\<close>,
  stands before the \<^verbatim>\<open>try\<close>: what it raises leaves the parser. The HTML parser is a
  library, so it is the parameter \<open>BeautifulSoup\<close> here: it returns a document or
  raises. The rest of the parser is inside the \<^verbatim>\<open>try\<close>. \<open>now\<close> is the reading of the
  clock, \<^verbatim>\<open>datetime.now().isoformat()\<close>.
\<close>

definition parse_power_response ::
  "(html \<Rightarrow> exn + node) \<Rightarrow> lottery_config \<Rightarrow> string \<Rightarrow> html \<Rightarrow> exn + fetched option" where
  "parse_power_response BeautifulSoup config now html_content =
     (case BeautifulSoup html_content of
        Inl e \<Rightarrow> Inl e
      | Inr soup \<Rightarrow> except_Exception (parse_power_body config now soup))"

definition parse_max3d_response ::
  "(html \<Rightarrow> exn + node) \<Rightarrow> lottery_config \<Rightarrow> string \<Rightarrow> html \<Rightarrow> exn + fetched option" where
  "parse_max3d_response BeautifulSoup config now html_content =
     (case BeautifulSoup html_content of
        Inl e \<Rightarrow> Inl e
      | Inr soup \<Rightarrow> except_Exception (parse_max3d_body config now soup))"

definition parse_response ::
  "(html \<Rightarrow> exn + node) \<Rightarrow> lottery_config \<Rightarrow> string \<Rightarrow> html \<Rightarrow> exn + fetched option" where
  "parse_response BeautifulSoup config now html_content =
     (if product_type config = ''max3d''
      then parse_max3d_response BeautifulSoup config now html_content
      else parse_power_response BeautifulSoup config now html_content)"

section \<open>Fetching one draw\<close>

text \<open>
  \<^verbatim>\<open>fetch_draw(draw_id)\<close>. The transport answers the \<open>i\<close>-th request of a session
  with a failure (a network error, a status that is no success, a body that is no
  JSON) or with the string found at \<^verbatim>\<open>value.RetExtraParam1\<close> of the body, the empty
  string when the keys are missing. \<open>BeautifulSoup\<close> is the HTML parser and \<open>clock\<close>
  the reading of the clock at each request. Whatever is raised is caught, also what
  the response parser raises: the caller gets \<^verbatim>\<open>None\<close>.
\<close>

datatype response = TransportError | Payload html

definition fetch_draw ::
  "(html \<Rightarrow> exn + node) \<Rightarrow> lottery_config \<Rightarrow> (nat \<Rightarrow> string) \<Rightarrow> (nat \<Rightarrow> string \<Rightarrow> response)
     \<Rightarrow> nat \<Rightarrow> string \<Rightarrow> fetched option" where
  "fetch_draw BeautifulSoup config clock post i cursor =
     (case post i cursor of
        TransportError \<Rightarrow> None
      | Payload html_content \<Rightarrow>
          if html_content = [] then None
          else
            (case parse_response BeautifulSoup config (clock i) html_content of
               Inl e \<Rightarrow> None
             | Inr res \<Rightarrow> res))"

section \<open>The pagination walker\<close>

text \<open>
  \<^verbatim>\<open>fetch_draw\<close> posts one request and returns a fetched record or \<^verbatim>\<open>None\<close>; it
  catches every exception of the transport and of the parser. The walker sees it as
  an oracle \<open>fetch\<close> (such as \<open>fetch_draw BeautifulSoup config clock post\<close>): the answer to
  the \<open>i\<close>-th request of a session (counted from 0), given the cursor that request
  carries. Nothing is assumed about the answers: the id of the
  answer need not be the cursor, and the same cursor may be answered differently at
  different requests.
\<close>

type_synonym fetch_oracle = "nat \<Rightarrow> string \<Rightarrow> fetched option"

text \<open>
  The loop \<^verbatim>\<open>for i in range(max_records)\<close> of \<^verbatim>\<open>crawl\<close>. The first argument counts
  the iterations that remain, \<open>draw_id\<close> is the cursor, \<open>all_data\<close> the accumulator
  and \<open>requests\<close> the cursors fetched so far, in order; the number of the next request
  is the length of that list. The loop returns the accumulator and the requests made.
  The test \<^verbatim>\<open>if prev_draw_id:\<close> is false for \<^verbatim>\<open>None\<close> and for the empty string.
\<close>

fun crawl_loop ::
  "fetch_oracle \<Rightarrow> string set \<Rightarrow> nat \<Rightarrow> string \<Rightarrow> draw_record list \<Rightarrow> string list
    \<Rightarrow> draw_record list \<times> string list" where
  "crawl_loop fetch existing_ids 0 cursor all_data requests = (all_data, requests)"
| "crawl_loop fetch existing_ids (Suc n) cursor all_data requests =
     (case fetch (length requests) cursor of
        None \<Rightarrow> (all_data, requests @ [cursor])
      | Some res \<Rightarrow>
          if draw_id res \<in> existing_ids then (all_data, requests @ [cursor])
          else
            (case prev_draw_id res of
               None \<Rightarrow> (all_data @ [draw_record.truncate res], requests @ [cursor])
             | Some prev \<Rightarrow>
                 if prev = [] then (all_data @ [draw_record.truncate res], requests @ [cursor])
                 else crawl_loop fetch existing_ids n prev
                        (all_data @ [draw_record.truncate res]) (requests @ [cursor])))"

text \<open>
  \<^verbatim>\<open>crawl(max_records, existing_ids)\<close>: \<^verbatim>\<open>range(max_records)\<close> has \<open>nat max_records\<close>
  elements (none when the bound is negative); the walk starts at the empty cursor,
  the latest draw. \<open>crawl_trace\<close> returns the records and the requests made,
  \<open>crawl\<close> the records, as the source does.
\<close>

definition crawl_trace ::
  "fetch_oracle \<Rightarrow> int \<Rightarrow> string set \<Rightarrow> draw_record list \<times> string list" where
  "crawl_trace fetch max_records existing_ids =
     crawl_loop fetch existing_ids (nat max_records) [] [] []"

definition crawl :: "fetch_oracle \<Rightarrow> int \<Rightarrow> string set \<Rightarrow> draw_record list" where
  "crawl fetch max_records existing_ids =
     fst (crawl_trace fetch max_records existing_ids)"

definition crawl_requests :: "fetch_oracle \<Rightarrow> int \<Rightarrow> string set \<Rightarrow> string list" where
  "crawl_requests fetch max_records existing_ids =
     snd (crawl_trace fetch max_records existing_ids)"

text \<open>
  An unbroken backward chain of at least \<open>n\<close> further draws behind the cursor: each of
  the next \<open>n\<close> requests is answered with a record whose id is not known and which
  links to a previous draw.
\<close>

fun unbroken_chain :: "fetch_oracle \<Rightarrow> string set \<Rightarrow> nat \<Rightarrow> nat \<Rightarrow> string \<Rightarrow> bool" where
  "unbroken_chain fetch existing_ids 0 i cursor = True"
| "unbroken_chain fetch existing_ids (Suc n) i cursor =
     (case fetch i cursor of
        None \<Rightarrow> False
      | Some res \<Rightarrow>
          draw_id res \<notin> existing_ids \<and>
          (case prev_draw_id res of
             None \<Rightarrow> False
           | Some prev \<Rightarrow> prev \<noteq> [] \<and> unbroken_chain fetch existing_ids n (Suc i) prev))"

section \<open>The store and update\<close>

text \<open>
  What \<^verbatim>\<open>update_data\<close> can raise: the \<^verbatim>\<open>ValueError\<close> for an unknown product, and the
  error of the reader on a store file that holds no line (\<^verbatim>\<open>pl.read_ndjson\<close> gives no
  \<^verbatim>\<open>id\<close> column to read there).
\<close>

datatype update_error = UnknownProduct | NoData

text \<open>
  The store file of a product is absent (\<open>None\<close>) or holds a list of lines, one record
  per line. Reading it gives the records in line order.
\<close>

type_synonym store = "draw_record list option"

definition read_store :: "store \<Rightarrow> update_error + draw_record list" where
  "read_store file =
     (case file of
        None \<Rightarrow> Inr []
      | Some ls \<Rightarrow> if ls = [] then Inl NoData else Inr ls)"

text \<open>
  The outcome of a call that returns: the number returned, the lines written to the
  store file (\<open>None\<close> when the file is not opened for writing), and the requests the
  walker made.
\<close>

record update_outcome =
  added :: nat
  written :: "draw_record list option"
  fetches :: "string list"

text \<open>
  Lines 402 to 427 of \<^verbatim>\<open>update_data\<close>: what is done with the records the walker
  returned. \<^verbatim>\<open>list.sort(key=...)\<close> is a stable sort by the date string, as
  \<open>sort_key\<close> is.
\<close>

definition merge_new ::
  "draw_record list \<Rightarrow> string set \<Rightarrow> draw_record list \<Rightarrow> nat \<times> draw_record list option" where
  "merge_new existing_data existing_ids new_data =
     (if new_data = [] then (0, None)
      else
        let new_records = filter (\<lambda>r. draw_id r \<notin> existing_ids) new_data in
        if new_records = [] then (0, None)
        else (length new_records, Some (sort_key date (existing_data @ new_records))))"

text \<open>
  \<^verbatim>\<open>update_data(product, pages)\<close>. The first argument gives, for a configuration, the
  behaviour of \<^verbatim>\<open>fetch_draw\<close> of the crawler built from it; \<open>file\<close> is the content of
  the product's store file before the call.
\<close>

definition update_data ::
  "(lottery_config \<Rightarrow> fetch_oracle) \<Rightarrow> string \<Rightarrow> int \<Rightarrow> store \<Rightarrow> update_error + update_outcome" where
  "update_data remote product pages file =
     (case PRODUCTS product of
        None \<Rightarrow> Inl UnknownProduct
      | Some config \<Rightarrow>
          (case read_store file of
             Inl e \<Rightarrow> Inl e
           | Inr existing_data \<Rightarrow>
               let existing_ids = set (map draw_id existing_data);
                   walk = crawl_trace (remote config) (pages * 10) existing_ids;
                   merged = merge_new existing_data existing_ids (fst walk)
               in Inr \<lparr>added = fst merged, written = snd merged, fetches = snd walk\<rparr>))"

text \<open>The store file after a call with the given outcome.\<close>

definition store_after :: "store \<Rightarrow> update_outcome \<Rightarrow> store" where
  "store_after file out = (case written out of None \<Rightarrow> file | Some ls \<Rightarrow> Some ls)"

definition store_lines :: "store \<Rightarrow> draw_record list" where
  "store_lines file = (case file of None \<Rightarrow> [] | Some ls \<Rightarrow> ls)"

section \<open>Fixtures\<close>

text \<open>
  A mocked transport: a table from the cursor of a request to the answer. A cursor
  with no entry has no answer (the fetch fails).
\<close>

definition mocked :: "(string \<times> fetched) list \<Rightarrow> fetch_oracle" where
  "mocked table = (\<lambda>i cursor. map_of table cursor)"

definition draw :: "string \<Rightarrow> string \<Rightarrow> int list \<Rightarrow> draw_record" where
  "draw i d ns = \<lparr>date = d, draw_id = i, result = Numbers ns,
     process_time = ''2026-01-15T08:00:00''\<rparr>"

definition linked :: "draw_record \<Rightarrow> string option \<Rightarrow> fetched" where
  "linked r prev = draw_record.extend r (fetched.fields prev)"

definition draw_98 :: draw_record where
  "draw_98 = draw ''98'' ''2026-01-07'' [3, 11, 17, 24, 38, 41]"

definition draw_99 :: draw_record where
  "draw_99 = draw ''99'' ''2026-01-09'' [5, 8, 19, 27, 30, 44]"

definition draw_100 :: draw_record where
  "draw_100 = draw ''100'' ''2026-01-11'' [2, 14, 21, 33, 36, 45]"

definition draw_101 :: draw_record where
  "draw_101 = draw ''101'' ''2026-01-14'' [7, 9, 16, 25, 31, 40]"

definition draw_102 :: draw_record where
  "draw_102 = draw ''102'' ''2026-01-16'' [1, 12, 18, 22, 35, 43]"

text \<open>Scenario A: three chained draws, the oldest without a previous link.\<close>

definition remote_A :: fetch_oracle where
  "remote_A = mocked
     [('''', linked draw_100 (Some ''99'')),
      (''100'', linked draw_100 (Some ''99'')),
      (''99'', linked draw_99 (Some ''98'')),
      (''98'', linked draw_98 None)]"

text \<open>Scenario B: the latest draw is 101 and links back to 100.\<close>

definition remote_B :: fetch_oracle where
  "remote_B = mocked
     [('''', linked draw_101 (Some ''100'')),
      (''101'', linked draw_101 (Some ''100'')),
      (''100'', linked draw_100 (Some ''99'')),
      (''99'', linked draw_99 (Some ''98'')),
      (''98'', linked draw_98 None)]"

definition store_B :: "draw_record list" where
  "store_B = [draw_98, draw_99, draw_100]"

text \<open>Scenario C: an unbroken chain of five draws, 102 back to 98.\<close>

definition remote_C :: fetch_oracle where
  "remote_C = mocked
     [('''', linked draw_102 (Some ''101'')),
      (''102'', linked draw_102 (Some ''101'')),
      (''101'', linked draw_101 (Some ''100'')),
      (''100'', linked draw_100 (Some ''99'')),
      (''99'', linked draw_99 (Some ''98'')),
      (''98'', linked draw_98 None)]"

text \<open>
  A draw of another id, 103, on the date of draw 100, and a remote that offers it as
  the latest draw, with no link to a previous draw.
\<close>

definition draw_103 :: draw_record where
  "draw_103 = draw ''103'' ''2026-01-11'' [4, 6, 10, 20, 28, 39]"

definition remote_same_date :: fetch_oracle where
  "remote_same_date = mocked [('''', linked draw_103 None)]"

text \<open>
  A draw whose date is the first day of the year 999, as the parser records it, and a
  remote that offers it as the latest draw.
\<close>

definition draw_104 :: draw_record where
  "draw_104 = draw ''104'' ''999-01-01'' [1, 13, 15, 23, 29, 42]"

definition remote_year_999 :: fetch_oracle where
  "remote_year_999 = mocked [('''', linked draw_104 None)]"

text \<open>A remote whose latest draw, 101, links to itself.\<close>

definition remote_loop :: fetch_oracle where
  "remote_loop = mocked
     [('''', linked draw_101 (Some ''101'')),
      (''101'', linked draw_101 (Some ''101''))]"

text \<open>Parsed fragments.\<close>

definition span :: "string list \<Rightarrow> string \<Rightarrow> node" where
  "span cs s = Tag ''span'' cs [] [NavigableString s]"

definition header :: node where
  "header = Tag ''h5'' [] []
     [NavigableString ''Ky quay thuong '', Tag ''b'' [] [] [NavigableString ''#01458''],
      NavigableString '' ngay '', Tag ''b'' [] [] [NavigableString ''14/01/2026'']]"

definition prev_link :: node where
  "prev_link = Tag ''a'' [''btn_chuyendulieu_left'']
     [(''href'', ''javascript:ClientDrawResult('' @ [CHR 0x27] @ ''01457'' @ [CHR 0x27] @ '');'')] []"

definition document :: "node list \<Rightarrow> node" where
  "document ks = Tag ''[document]'' [] [] [Tag ''html'' [] [] [Tag ''body'' [] [] ks]]"

text \<open>A Power 6/55 result: six numbers, a separator, the bonus number.\<close>

definition power_soup :: node where
  "power_soup = document
     [header,
      Tag ''div'' [''day_so_ket_qua_v2''] []
        [span [''bong_tron'', ''small''] ''03'', span [''bong_tron'', ''small''] ''11'',
         span [''bong_tron'', ''small''] ''17'', span [''bong_tron'', ''small''] ''24'',
         span [''bong_tron'', ''small''] ''38'', span [''bong_tron'', ''small''] ''41'',
         span [''bong_tron-sperator''] ''|'', span [''bong_tron'', ''small''] ''07''],
      prev_link]"

text \<open>The same with five numbers only.\<close>

definition power_soup_short :: node where
  "power_soup_short = document
     [header,
      Tag ''div'' [''day_so_ket_qua_v2''] []
        [span [''bong_tron'', ''small''] ''03'', span [''bong_tron'', ''small''] ''11'',
         span [''bong_tron'', ''small''] ''17'', span [''bong_tron'', ''small''] ''24'',
         span [''bong_tron'', ''small''] ''38''],
      prev_link]"

text \<open>Six numbers, and a seventh span that holds the superscript digit two.\<close>

definition power_soup_superscript :: node where
  "power_soup_superscript = document
     [header,
      Tag ''div'' [''day_so_ket_qua_v2''] []
        [span [''bong_tron'', ''small''] ''03'', span [''bong_tron'', ''small''] ''11'',
         span [''bong_tron'', ''small''] ''17'', span [''bong_tron'', ''small''] ''24'',
         span [''bong_tron'', ''small''] ''38'', span [''bong_tron'', ''small''] ''41'',
         span [''note''] [CHR 0xB2]],
      prev_link]"

text \<open>A header whose date is the 31st of February.\<close>

definition bad_date_header :: node where
  "bad_date_header = Tag ''h5'' [] [] [NavigableString ''Ky quay thuong #01458 ngay 31/02/2026'']"

definition bad_date_soup :: node where
  "bad_date_soup = document
     [bad_date_header,
      Tag ''div'' [''day_so_ket_qua_v2''] []
        [span [''bong_tron''] ''0'', span [''bong_tron''] ''0'', span [''bong_tron''] ''7'']]"

definition triplet :: "string \<Rightarrow> string \<Rightarrow> string \<Rightarrow> node" where
  "triplet a b c = Tag ''div'' [''day_so_ket_qua_v2''] []
     [span [''bong_tron''] a, span [''bong_tron''] b, span [''bong_tron''] c]"

text \<open>A Max 3D result with two complete triplets and a group of two digits.\<close>

definition max3d_soup :: node where
  "max3d_soup = document
     [header, triplet ''0'' ''0'' ''7'', triplet ''1'' ''2'' ''3'',
      Tag ''div'' [''day_so_ket_qua_v2''] [] [span [''bong_tron''] ''4'', span [''bong_tron''] ''5''],
      prev_link]"

text \<open>One complete triplet only.\<close>

definition max3d_soup_short :: node where
  "max3d_soup_short = document [header, triplet ''0'' ''0'' ''7'', prev_link]"

text \<open>Two groups of three sub-elements, the first sub-element holding two digits.\<close>

definition max3d_soup_wide :: node where
  "max3d_soup_wide = document
     [header, triplet ''12'' ''3'' ''4'', triplet ''56'' ''7'' ''8'', prev_link]"

text \<open>Documents without a header, without a draw id in the header, without a date.\<close>

definition no_header_soup :: node where
  "no_header_soup = document [triplet ''0'' ''0'' ''7'', triplet ''1'' ''2'' ''3'']"

definition no_id_header :: node where
  "no_id_header = Tag ''h5'' [] [] [NavigableString ''Ky quay thuong ngay 14/01/2026'']"

definition no_id_soup :: node where
  "no_id_soup = document [no_id_header, triplet ''0'' ''0'' ''7'', triplet ''1'' ''2'' ''3'']"

definition no_date_header :: node where
  "no_date_header = Tag ''h5'' [] [] [NavigableString ''Ky quay thuong #01458'']"

definition no_date_soup :: node where
  "no_date_soup = document [no_date_header, triplet ''0'' ''0'' ''7'', triplet ''1'' ''2'' ''3'']"

text \<open>
  The two draws of the walker fixtures above as parsed fragments: draw 103 on the date
  of draw 100, and draw 104 on the first day of the year 999.
\<close>

definition header_103 :: node where
  "header_103 = Tag ''h5'' [] [] [NavigableString ''Ky quay thuong #103 ngay 11/01/2026'']"

definition soup_103 :: node where
  "soup_103 = document
     [header_103,
      Tag ''div'' [''day_so_ket_qua_v2''] []
        [span [''bong_tron''] ''04'', span [''bong_tron''] ''06'', span [''bong_tron''] ''10'',
         span [''bong_tron''] ''20'', span [''bong_tron''] ''28'', span [''bong_tron''] ''39'']]"

definition header_104 :: node where
  "header_104 = Tag ''h5'' [] [] [NavigableString ''Ky quay thuong #104 ngay 01/01/0999'']"

definition soup_104 :: node where
  "soup_104 = document
     [header_104,
      Tag ''div'' [''day_so_ket_qua_v2''] []
        [span [''bong_tron''] ''01'', span [''bong_tron''] ''13'', span [''bong_tron''] ''15'',
         span [''bong_tron''] ''23'', span [''bong_tron''] ''29'', span [''bong_tron''] ''42'']]"

text \<open>
  Contents of responses, written as their texts, for the four fragments that give no
  record, and a content that holds the surrogate code point \<^verbatim>\<open>0xD800\<close>.
\<close>

definition html_of :: "string \<Rightarrow> html" where
  "html_of s = map of_char s"

definition no_header_html :: html where
  "no_header_html = html_of
     (''<div class=day_so_ket_qua_v2><span class=bong_tron>0</span>'' @
      ''<span class=bong_tron>0</span><span class=bong_tron>7</span></div>'' @
      ''<div class=day_so_ket_qua_v2><span class=bong_tron>1</span>'' @
      ''<span class=bong_tron>2</span><span class=bong_tron>3</span></div>'')"

definition no_id_html :: html where
  "no_id_html = html_of ''<h5>Ky quay thuong ngay 14/01/2026</h5>'' @ no_header_html"

definition no_date_html :: html where
  "no_date_html = html_of ''<h5>Ky quay thuong #01458</h5>'' @ no_header_html"

definition bad_date_html :: html where
  "bad_date_html = html_of
     (''<h5>Ky quay thuong #01458 ngay 31/02/2026</h5>'' @
      ''<div class=day_so_ket_qua_v2><span class=bong_tron>0</span>'' @
      ''<span class=bong_tron>0</span><span class=bong_tron>7</span></div>'')"

definition surrogate_html :: html where
  "surrogate_html = html_of ''<h5>Ky quay thuong #01458 ngay '' @ [0xD800] @ html_of ''</h5>''"

text \<open>
  A stand-in for \<^verbatim>\<open>BeautifulSoup(html_content, "lxml")\<close> on these contents. lxml takes
  the content encoded as UTF-8, and the encoding raises \<^verbatim>\<open>UnicodeEncodeError\<close> on a
  surrogate; the four other contents are parsed to the documents above. The answer on
  any other content, the empty document, stands for nothing.
\<close>

definition is_surrogate :: "nat \<Rightarrow> bool" where
  "is_surrogate c = (0xD800 \<le> c \<and> c \<le> 0xDFFF)"

definition parsed_fixtures :: "(html \<times> node) list" where
  "parsed_fixtures =
     [(no_header_html, no_header_soup), (no_id_html, no_id_soup),
      (no_date_html, no_date_soup), (bad_date_html, bad_date_soup)]"

definition BeautifulSoup_lxml :: "html \<Rightarrow> exn + node" where
  "BeautifulSoup_lxml html_content =
     (if list_ex is_surrogate html_content then Inl UnicodeEncodeError
      else (case map_of parsed_fixtures html_content of
              Some soup \<Rightarrow> Inr soup
            | None \<Rightarrow> Inr (document [])))"

section \<open>Properties of the parsers\<close>

lemma except_Exception_returns: "\<exists>r. except_Exception body = Inr r"
  by (cases body) (simp_all add: except_Exception_def)

lemma except_Exception_raised: "except_Exception (Inl e) = Inr None"
  by (simp add: except_Exception_def)

text \<open>
  The loop over the span texts keeps one number per text that passes \<^verbatim>\<open>isdigit\<close>,
  unless a conversion raises.
\<close>

lemma collect_numbers_length:
  "collect_numbers ts = Inr ns \<Longrightarrow> length ns = length (filter isdigit ts)"
  by (induction ts arbitrary: ns) (auto split: if_splits sum.splits)

lemma collect_numbers_converted:
  "list_all (\<lambda>t. list_all isdecimal_char t \<and> length t \<le> int_max_str_digits) (filter isdigit ts)
   \<Longrightarrow> collect_numbers ts = Inr (map (\<lambda>t. int (nat_of_digits t)) (filter isdigit ts))"
  by (induction ts) (auto simp: int_of_text_def isdigit_def)

text \<open>
  On a content that the HTML parser makes a document of, with a valid header and a
  result container: fewer texts that pass \<^verbatim>\<open>isdigit\<close> than the pick-count give no
  record.
\<close>

lemma power_fewer_no_record:
  assumes "BeautifulSoup html_content = Inr soup"
      and "parse_header soup = Inr (Some (did, d))"
      and "result_container soup = Some result_div"
      and "int (length (filter isdigit (texts (ByTag ''span'') result_div))) < numbers_to_pick config"
  shows "parse_power_response BeautifulSoup config now html_content = Inr None"
proof (cases "collect_numbers (texts (ByTag ''span'') result_div)")
  case (Inl e)
  with assms(1,2,3) show ?thesis
    by (simp add: parse_power_response_def parse_power_body_def except_Exception_def)
next
  case (Inr ns)
  with assms(4) have "int (length ns) < numbers_to_pick config"
    by (simp add: collect_numbers_length)
  with Inr assms(1,2,3) show ?thesis
    by (simp add: parse_power_response_def parse_power_body_def except_Exception_def)
qed

text \<open>
  With a valid header and a result container whose digit texts are all decimal
  numerals that \<^verbatim>\<open>int\<close> converts: at least pick-count of them give a record whose
  result is the first pick-count of them, as integers.
\<close>

lemma power_record:
  assumes "BeautifulSoup html_content = Inr soup"
      and "parse_header soup = Inr (Some (did, d))"
      and "result_container soup = Some result_div"
      and "list_all (\<lambda>t. list_all isdecimal_char t \<and> length t \<le> int_max_str_digits)
             (filter isdigit (texts (ByTag ''span'') result_div))"
      and "0 \<le> numbers_to_pick config"
      and "numbers_to_pick config \<le> int (length (filter isdigit (texts (ByTag ''span'') result_div)))"
  shows "parse_power_response BeautifulSoup config now html_content =
           Inr (Some \<lparr>date = d, draw_id = did,
                  result = Numbers (map (\<lambda>t. int (nat_of_digits t))
                             (take (nat (numbers_to_pick config))
                                (filter isdigit (texts (ByTag ''span'') result_div)))),
                  process_time = now, prev_draw_id = find_prev_draw_id soup\<rparr>)"
    and "length (take (nat (numbers_to_pick config))
                   (filter isdigit (texts (ByTag ''span'') result_div)))
           = nat (numbers_to_pick config)"
proof -
  from assms(4) have
    "collect_numbers (texts (ByTag ''span'') result_div)
       = Inr (map (\<lambda>t. int (nat_of_digits t)) (filter isdigit (texts (ByTag ''span'') result_div)))"
    by (rule collect_numbers_converted)
  with assms(1,2,3,5,6) show "parse_power_response BeautifulSoup config now html_content =
           Inr (Some \<lparr>date = d, draw_id = did,
                  result = Numbers (map (\<lambda>t. int (nat_of_digits t))
                             (take (nat (numbers_to_pick config))
                                (filter isdigit (texts (ByTag ''span'') result_div)))),
                  process_time = now, prev_draw_id = find_prev_draw_id soup\<rparr>)"
    by (simp add: parse_power_response_def parse_power_body_def except_Exception_def
                  slice_to_def take_map)
  from assms(5,6) show "length (take (nat (numbers_to_pick config))
                   (filter isdigit (texts (ByTag ''span'') result_div)))
           = nat (numbers_to_pick config)"
    by simp
qed

text \<open>
  The numeric parser on a content that the HTML parser makes \<open>power_soup\<close> of, whose
  container holds seven number texts (six numbers and the bonus number), and on one
  whose container holds five.
\<close>

lemma power_soup_parsed:
  "parse_response (\<lambda>html_content. Inr power_soup) POWER_655_CONFIG ''2026-01-15T08:00:00''
       html_content =
     Inr (Some \<lparr>date = ''2026-01-14'', draw_id = ''01458'',
            result = Numbers [3, 11, 17, 24, 38, 41],
            process_time = ''2026-01-15T08:00:00'', prev_draw_id = Some ''01457''\<rparr>)"
  by code_simp

lemma power_soup_short_parsed:
  "parse_response (\<lambda>html_content. Inr power_soup_short) POWER_655_CONFIG ''2026-01-15T08:00:00''
       html_content = Inr None"
  by code_simp

text \<open>
  The two draws of the walker fixtures are records the parser returns: draw 103 on the
  date of draw 100, and draw 104, whose date \<^verbatim>\<open>01/01/0999\<close> is recorded as
  \<^verbatim>\<open>999-01-01\<close>.
\<close>

lemma soup_103_parsed:
  "parse_response (\<lambda>html_content. Inr soup_103) POWER_655_CONFIG ''2026-01-15T08:00:00''
       html_content = Inr (Some (linked draw_103 None))"
  by code_simp

lemma soup_104_parsed:
  "parse_response (\<lambda>html_content. Inr soup_104) POWER_655_CONFIG ''2026-01-15T08:00:00''
       html_content = Inr (Some (linked draw_104 None)) \<and>
   strptime ''01/01/0999'' = Inr (999, 1, 1) \<and> strftime (999, 1, 1) = date draw_104"
  by code_simp

text \<open>
  C5 on a content that the HTML parser makes \<open>power_soup_superscript\<close> of: the
  container holds the six numbers of a draw and, in a seventh span, the superscript
  digit two. The header is valid and the container is found; the six number texts
  are there; the superscript passes \<^verbatim>\<open>isdigit\<close>, \<^verbatim>\<open>int\<close> raises on it, and the
  parser returns no record.
\<close>

theorem power_superscript_no_record:
  "parse_header power_soup_superscript = Inr (Some (''01458'', ''2026-01-14'')) \<and>
   map_option (texts (ByTag ''span'')) (result_container power_soup_superscript)
     = Some [''03'', ''11'', ''17'', ''24'', ''38'', ''41'', [CHR 0xB2]] \<and>
   filter (\<lambda>t. t \<noteq> [] \<and> list_all isdecimal_char t)
      [''03'', ''11'', ''17'', ''24'', ''38'', ''41'', [CHR 0xB2]]
     = [''03'', ''11'', ''17'', ''24'', ''38'', ''41''] \<and>
   numbers_to_pick POWER_655_CONFIG = 6 \<and>
   isdigit [CHR 0xB2] \<and> int_of_text [CHR 0xB2] = Inl ValueError \<and>
   parse_power_body POWER_655_CONFIG ''2026-01-15T08:00:00'' power_soup_superscript
     = Inl ValueError \<and>
   parse_response (\<lambda>html_content. Inr power_soup_superscript) POWER_655_CONFIG
       ''2026-01-15T08:00:00'' html_content = Inr None"
  by code_simp

text \<open>
  What one result container adds: the joined texts when there are exactly three
  \<^verbatim>\<open>span.bong_tron\<close> texts and each passes \<^verbatim>\<open>isdigit\<close>. The joined text has three
  characters when each text is a single character.
\<close>

lemma triplet_of_eq:
  "triplet_of result_div =
     (if length (texts (ByTagClass ''span'' ''bong_tron'') result_div) = 3 \<and>
         list_all isdigit (texts (ByTagClass ''span'' ''bong_tron'') result_div)
      then [concat (texts (ByTagClass ''span'' ''bong_tron'') result_div)] else [])"
  by (auto simp: triplet_of_def Let_def)

lemma concat_single_digits:
  "length ds = 3 \<Longrightarrow> list_all (\<lambda>d. length d = 1) ds \<Longrightarrow> length (concat ds) = 3"
  by (auto simp: numeral_3_eq_3 length_Suc_conv)

text \<open>
  On a content that the HTML parser makes a document of, with a valid header, the
  Max 3D parser returns a record exactly when it has found at least two triplets, and
  the result is the list of them.
\<close>

lemma max3d_record:
  assumes "BeautifulSoup html_content = Inr soup"
      and "parse_header soup = Inr (Some (did, d))"
  shows "parse_max3d_response BeautifulSoup config now html_content =
           (if length (max3d_numbers soup) < 2 then Inr None
            else Inr (Some \<lparr>date = d, draw_id = did, result = Triplets (max3d_numbers soup),
                   process_time = now, prev_draw_id = find_prev_draw_id soup\<rparr>))"
  using assms
  by (simp add: parse_max3d_response_def parse_max3d_body_def except_Exception_def)

lemma max3d_soup_parsed:
  "parse_response (\<lambda>html_content. Inr max3d_soup) MAX3D_CONFIG ''2026-01-15T08:00:00''
       html_content =
     Inr (Some \<lparr>date = ''2026-01-14'', draw_id = ''01458'',
            result = Triplets [''007'', ''123''],
            process_time = ''2026-01-15T08:00:00'', prev_draw_id = Some ''01457''\<rparr>)"
  by code_simp

lemma max3d_soup_short_parsed:
  "parse_response (\<lambda>html_content. Inr max3d_soup_short) MAX3D_CONFIG ''2026-01-15T08:00:00''
       html_content = Inr None"
  by code_simp

text \<open>
  C6 on a content that the HTML parser makes \<open>max3d_soup_wide\<close> of: a valid header and
  two result containers of three \<^verbatim>\<open>span.bong_tron\<close> each, the first of each holding
  two digits. No container holds three single digits, yet the parser returns a
  record, and its result strings have four characters.
\<close>

theorem max3d_wide_group_record:
  "parse_header max3d_soup_wide = Inr (Some (''01458'', ''2026-01-14'')) \<and>
   map (texts (ByTagClass ''span'' ''bong_tron'')) (select (ByClass ''day_so_ket_qua_v2'') max3d_soup_wide)
     = [[''12'', ''3'', ''4''], [''56'', ''7'', ''8'']] \<and>
   filter (\<lambda>ds. length ds = 3 \<and> list_all (\<lambda>d. length d = 1 \<and> list_all isdecimal_char d) ds)
     [[''12'', ''3'', ''4''], [''56'', ''7'', ''8'']] = [] \<and>
   parse_response (\<lambda>html_content. Inr max3d_soup_wide) MAX3D_CONFIG ''2026-01-15T08:00:00''
       html_content =
     Inr (Some \<lparr>date = ''2026-01-14'', draw_id = ''01458'',
            result = Triplets [''1234'', ''5678''],
            process_time = ''2026-01-15T08:00:00'', prev_draw_id = Some ''01457''\<rparr>) \<and>
   map length [''1234'', ''5678''] = [4, 4]"
  by code_simp

text \<open>
  Inside the \<^verbatim>\<open>try\<close>: once the HTML parser has made a document of the content, the
  response parser returns, a record or no record, and raises nothing. A missing
  header, a header without a draw id, a header without a date and a date that
  \<^verbatim>\<open>strptime\<close> rejects each give no record.
\<close>

lemma parsed_content_returns:
  assumes "BeautifulSoup html_content = Inr soup"
  shows "\<exists>r. parse_response BeautifulSoup config now html_content = Inr r"
  using assms
  by (simp add: parse_response_def parse_power_response_def parse_max3d_response_def
        except_Exception_returns)

lemma no_header_no_record:
  assumes "BeautifulSoup html_content = Inr soup"
      and "parse_header soup = Inr None \<or> parse_header soup = Inl e"
  shows "parse_response BeautifulSoup config now html_content = Inr None"
  using assms
  by (auto simp: parse_response_def parse_power_response_def parse_max3d_response_def
        parse_power_body_def parse_max3d_body_def except_Exception_def)

text \<open>
  C7. The HTML parser is called before the \<^verbatim>\<open>try\<close>. What it raises on a content, each
  of the two parsers raises to its caller, and so does their dispatcher;
  \<^verbatim>\<open>fetch_draw\<close>, the caller, catches it and returns \<^verbatim>\<open>None\<close>. Where the HTML parser
  returns a document, the response parser returns a record or no record, and no
  record on a missing header, a header without a draw id, a header without a date and
  a date that \<^verbatim>\<open>strptime\<close> rejects.
\<close>

theorem parser_raises_outside_try:
  "(BeautifulSoup html_content = Inl e \<longrightarrow>
      parse_power_response BeautifulSoup config now html_content = Inl e \<and>
      parse_max3d_response BeautifulSoup config now html_content = Inl e \<and>
      parse_response BeautifulSoup config now html_content = Inl e \<and>
      fetch_draw BeautifulSoup config (\<lambda>i. now) (\<lambda>i cursor. Payload html_content) i cursor = None) \<and>
   (BeautifulSoup html_content = Inr soup \<longrightarrow>
      (\<exists>r. parse_response BeautifulSoup config now html_content = Inr r)) \<and>
   (BeautifulSoup html_content = Inr soup \<and> select_one (ByTag ''h5'') soup = None \<longrightarrow>
      parse_response BeautifulSoup config now html_content = Inr None) \<and>
   (BeautifulSoup html_content = Inr soup \<and> select_one (ByTag ''h5'') soup = Some h5 \<and>
    search_draw_id (get_text h5) = None \<longrightarrow>
      parse_response BeautifulSoup config now html_content = Inr None) \<and>
   (BeautifulSoup html_content = Inr soup \<and> select_one (ByTag ''h5'') soup = Some h5 \<and>
    search_date (get_text h5) = None \<longrightarrow>
      parse_response BeautifulSoup config now html_content = Inr None) \<and>
   (BeautifulSoup html_content = Inr soup \<and> select_one (ByTag ''h5'') soup = Some h5 \<and>
    search_date (get_text h5) = Some date_str \<and> strptime date_str = Inl e' \<longrightarrow>
      parse_response BeautifulSoup config now html_content = Inr None)"
proof -
  have 0: "parse_power_response BeautifulSoup config now html_content = Inl e \<and>
      parse_max3d_response BeautifulSoup config now html_content = Inl e \<and>
      parse_response BeautifulSoup config now html_content = Inl e \<and>
      fetch_draw BeautifulSoup config (\<lambda>i. now) (\<lambda>i cursor. Payload html_content) i cursor = None"
    if "BeautifulSoup html_content = Inl e"
    using that
    by (auto simp: parse_response_def parse_power_response_def parse_max3d_response_def
          fetch_draw_def)
  have 1: "\<exists>r. parse_response BeautifulSoup config now html_content = Inr r"
    if "BeautifulSoup html_content = Inr soup"
    using that by (rule parsed_content_returns)
  have 2: "parse_response BeautifulSoup config now html_content = Inr None"
    if "BeautifulSoup html_content = Inr soup \<and> select_one (ByTag ''h5'') soup = None"
    using that no_header_no_record [of BeautifulSoup html_content soup]
    by (simp add: parse_header_def)
  have 3: "parse_response BeautifulSoup config now html_content = Inr None"
    if "BeautifulSoup html_content = Inr soup \<and> select_one (ByTag ''h5'') soup = Some h5 \<and>
        search_draw_id (get_text h5) = None"
    using that no_header_no_record [of BeautifulSoup html_content soup]
    by (simp add: parse_header_def)
  have 4: "parse_response BeautifulSoup config now html_content = Inr None"
    if "BeautifulSoup html_content = Inr soup \<and> select_one (ByTag ''h5'') soup = Some h5 \<and>
        search_date (get_text h5) = None"
    using that no_header_no_record [of BeautifulSoup html_content soup]
    by (simp add: parse_header_def split: option.splits)
  have 5: "parse_response BeautifulSoup config now html_content = Inr None"
    if "BeautifulSoup html_content = Inr soup \<and> select_one (ByTag ''h5'') soup = Some h5 \<and>
        search_date (get_text h5) = Some date_str \<and> strptime date_str = Inl e'"
    using that no_header_no_record [of BeautifulSoup html_content soup e']
    by (simp add: parse_header_def split: option.splits)
  from 0 1 2 3 4 5 show ?thesis by blast
qed

lemmas html_defs = BeautifulSoup_lxml_def parsed_fixtures_def is_surrogate_def html_of_def
  no_header_html_def no_id_html_def no_date_html_def bad_date_html_def surrogate_html_def

theorem parser_raises_outside_try_witness:
  "BeautifulSoup_lxml surrogate_html = Inl UnicodeEncodeError \<and>
   parse_power_response BeautifulSoup_lxml POWER_655_CONFIG ''2026-01-15T08:00:00'' surrogate_html
     = Inl UnicodeEncodeError \<and>
   parse_max3d_response BeautifulSoup_lxml MAX3D_CONFIG ''2026-01-15T08:00:00'' surrogate_html
     = Inl UnicodeEncodeError \<and>
   parse_response BeautifulSoup_lxml POWER_655_CONFIG ''2026-01-15T08:00:00'' surrogate_html
     = Inl UnicodeEncodeError \<and>
   parse_response BeautifulSoup_lxml MAX3D_CONFIG ''2026-01-15T08:00:00'' surrogate_html
     = Inl UnicodeEncodeError \<and>
   BeautifulSoup_lxml no_header_html = Inr no_header_soup \<and>
   select_one (ByTag ''h5'') no_header_soup = None \<and>
   parse_response BeautifulSoup_lxml MAX3D_CONFIG ''2026-01-15T08:00:00'' no_header_html = Inr None \<and>
   BeautifulSoup_lxml no_id_html = Inr no_id_soup \<and>
   select_one (ByTag ''h5'') no_id_soup = Some no_id_header \<and>
   search_draw_id (get_text no_id_header) = None \<and>
   parse_response BeautifulSoup_lxml POWER_655_CONFIG ''2026-01-15T08:00:00'' no_id_html = Inr None \<and>
   BeautifulSoup_lxml no_date_html = Inr no_date_soup \<and>
   select_one (ByTag ''h5'') no_date_soup = Some no_date_header \<and>
   search_date (get_text no_date_header) = None \<and>
   parse_response BeautifulSoup_lxml MAX3D_CONFIG ''2026-01-15T08:00:00'' no_date_html = Inr None \<and>
   BeautifulSoup_lxml bad_date_html = Inr bad_date_soup \<and>
   select_one (ByTag ''h5'') bad_date_soup = Some bad_date_header \<and>
   search_date (get_text bad_date_header) = Some ''31/02/2026'' \<and>
   strptime ''31/02/2026'' = Inl ValueError \<and>
   parse_response BeautifulSoup_lxml POWER_655_CONFIG ''2026-01-15T08:00:00'' bad_date_html = Inr None"
proof -
  have s: "BeautifulSoup_lxml surrogate_html = Inl UnicodeEncodeError"
    by (simp add: html_defs)
  have a: "BeautifulSoup_lxml no_header_html = Inr no_header_soup \<and>
           select_one (ByTag ''h5'') no_header_soup = None"
    by (rule conjI) (simp add: html_defs, code_simp)
  have b: "BeautifulSoup_lxml no_id_html = Inr no_id_soup \<and>
           select_one (ByTag ''h5'') no_id_soup = Some no_id_header \<and>
           search_draw_id (get_text no_id_header) = None"
    by (rule conjI) (simp add: html_defs, code_simp)
  have c: "BeautifulSoup_lxml no_date_html = Inr no_date_soup \<and>
           select_one (ByTag ''h5'') no_date_soup = Some no_date_header \<and>
           search_date (get_text no_date_header) = None"
    by (rule conjI) (simp add: html_defs, code_simp)
  have d: "BeautifulSoup_lxml bad_date_html = Inr bad_date_soup \<and>
           select_one (ByTag ''h5'') bad_date_soup = Some bad_date_header \<and>
           search_date (get_text bad_date_header) = Some ''31/02/2026'' \<and>
           strptime ''31/02/2026'' = Inl ValueError"
    by (rule conjI) (simp add: html_defs, code_simp)
  from s parser_raises_outside_try [of BeautifulSoup_lxml surrogate_html UnicodeEncodeError
                                       POWER_655_CONFIG "''2026-01-15T08:00:00''"]
  have S1: "parse_power_response BeautifulSoup_lxml POWER_655_CONFIG ''2026-01-15T08:00:00''
              surrogate_html = Inl UnicodeEncodeError \<and>
            parse_response BeautifulSoup_lxml POWER_655_CONFIG ''2026-01-15T08:00:00''
              surrogate_html = Inl UnicodeEncodeError"
    by blast
  from s parser_raises_outside_try [of BeautifulSoup_lxml surrogate_html UnicodeEncodeError
                                       MAX3D_CONFIG "''2026-01-15T08:00:00''"]
  have S2: "parse_max3d_response BeautifulSoup_lxml MAX3D_CONFIG ''2026-01-15T08:00:00''
              surrogate_html = Inl UnicodeEncodeError \<and>
            parse_response BeautifulSoup_lxml MAX3D_CONFIG ''2026-01-15T08:00:00''
              surrogate_html = Inl UnicodeEncodeError"
    by blast
  from a parser_raises_outside_try [of BeautifulSoup_lxml no_header_html _ MAX3D_CONFIG
                                       "''2026-01-15T08:00:00''" _ _ no_header_soup]
  have A: "parse_response BeautifulSoup_lxml MAX3D_CONFIG ''2026-01-15T08:00:00'' no_header_html
             = Inr None"
    by blast
  from b parser_raises_outside_try [of BeautifulSoup_lxml no_id_html _ POWER_655_CONFIG
                                       "''2026-01-15T08:00:00''" _ _ no_id_soup no_id_header]
  have B: "parse_response BeautifulSoup_lxml POWER_655_CONFIG ''2026-01-15T08:00:00'' no_id_html
             = Inr None"
    by blast
  from c parser_raises_outside_try [of BeautifulSoup_lxml no_date_html _ MAX3D_CONFIG
                                       "''2026-01-15T08:00:00''" _ _ no_date_soup no_date_header]
  have C: "parse_response BeautifulSoup_lxml MAX3D_CONFIG ''2026-01-15T08:00:00'' no_date_html
             = Inr None"
    by blast
  from d parser_raises_outside_try [of BeautifulSoup_lxml bad_date_html _ POWER_655_CONFIG
                                       "''2026-01-15T08:00:00''" _ _ bad_date_soup bad_date_header
                                       "''31/02/2026''" ValueError]
  have D: "parse_response BeautifulSoup_lxml POWER_655_CONFIG ''2026-01-15T08:00:00'' bad_date_html
             = Inr None"
    by blast
  from s a b c d S1 S2 A B C D show ?thesis by blast
qed

section \<open>Properties of the walker\<close>

lemmas fixture_defs = mocked_def draw_def linked_def draw_98_def draw_99_def draw_100_def
  draw_101_def draw_102_def draw_103_def draw_104_def remote_A_def remote_B_def store_B_def
  remote_C_def remote_same_date_def remote_year_999_def remote_loop_def
  draw_record.extend_def draw_record.truncate_def
  fetched.fields_def

text \<open>
  Whatever the remote answers, the loop appends to its accumulator and to its request
  log, makes at most as many requests as it has iterations left, keeps at most one
  record per request, and keeps no record whose id is known.
\<close>

lemma crawl_loop_shape:
  "\<exists>news rs. crawl_loop f ex n c acc reqs = (acc @ news, reqs @ rs)
      \<and> length news \<le> length rs \<and> length rs \<le> n
      \<and> list_all (\<lambda>r. draw_id r \<notin> ex) news"
proof (induction n arbitrary: c acc reqs)
  case 0
  then show ?case by simp
next
  case (Suc n)
  show ?case
  proof (cases "f (length reqs) c")
    case None
    then show ?thesis by simp
  next
    case (Some res)
    show ?thesis
    proof (cases "draw_id res \<in> ex")
      case True
      with Some show ?thesis by simp
    next
      case False
      show ?thesis
      proof (cases "prev_draw_id res")
        case None
        with Some False show ?thesis by (simp add: draw_record.truncate_def)
      next
        case (Some prev)
        show ?thesis
        proof (cases "prev = []")
          case True
          with Some \<open>f (length reqs) c = Some res\<close> False show ?thesis
            by (simp add: draw_record.truncate_def)
        next
          case nonempty: False
          from Suc.IH [of prev "acc @ [draw_record.truncate res]" "reqs @ [c]"]
          obtain news rs where
            h: "crawl_loop f ex n prev (acc @ [draw_record.truncate res]) (reqs @ [c])
                 = ((acc @ [draw_record.truncate res]) @ news, (reqs @ [c]) @ rs)"
               "length news \<le> length rs" "length rs \<le> n"
               "list_all (\<lambda>r. draw_id r \<notin> ex) news"
            by blast
          have "crawl_loop f ex (Suc n) c acc reqs
                  = (acc @ (draw_record.truncate res # news), reqs @ (c # rs))"
            using Some \<open>f (length reqs) c = Some res\<close> False nonempty h(1) by simp
          moreover have "list_all (\<lambda>r. draw_id r \<notin> ex) (draw_record.truncate res # news)"
            using False h(4) by (simp add: draw_record.truncate_def)
          ultimately show ?thesis using h(2,3) 
            by (intro exI[of _ "draw_record.truncate res # news"] exI[of _ "c # rs"]) simp
        qed
      qed
    qed
  qed
qed

lemma crawl_loop_unbroken:
  "unbroken_chain f ex n (length reqs) c \<Longrightarrow>
     length (fst (crawl_loop f ex n c acc reqs)) = length acc + n \<and>
     length (snd (crawl_loop f ex n c acc reqs)) = length reqs + n"
proof (induction n arbitrary: c acc reqs)
  case 0
  then show ?case by simp
next
  case (Suc n)
  from Suc.prems obtain res prev where
    h: "f (length reqs) c = Some res" "draw_id res \<notin> ex" "prev_draw_id res = Some prev"
       "prev \<noteq> []" "unbroken_chain f ex n (Suc (length reqs)) prev"
    by (auto split: option.splits)
  from h(5) have "unbroken_chain f ex n (length (reqs @ [c])) prev" by simp
  from Suc.IH [OF this, of "acc @ [draw_record.truncate res]"] h(1-4)
  show ?case by simp
qed

lemma crawl_loop_first:
  assumes "fst (crawl_loop f ex n c [] reqs) \<noteq> []"
  shows "\<exists>res. f (length reqs) c = Some res \<and> draw_id res \<notin> ex \<and> 0 < n
           \<and> draw_id (hd (fst (crawl_loop f ex n c [] reqs))) = draw_id res"
proof (cases n)
  case 0
  with assms show ?thesis by simp
next
  case (Suc k)
  show ?thesis
  proof (cases "f (length reqs) c")
    case None
    with assms Suc show ?thesis by simp
  next
    case (Some res)
    have unknown: "draw_id res \<notin> ex"
      using assms Suc Some by (auto split: if_splits)
    obtain news rs where
      "crawl_loop f ex k (the (prev_draw_id res)) ([] @ [draw_record.truncate res]) (reqs @ [c])
         = (([] @ [draw_record.truncate res]) @ news, (reqs @ [c]) @ rs)"
      using crawl_loop_shape by blast
    then have "draw_id (hd (fst (crawl_loop f ex n c [] reqs))) = draw_id res"
      using Suc Some unknown
      by (auto simp: draw_record.truncate_def split: option.splits)
    with Some unknown Suc show ?thesis by simp
  qed
qed

lemma crawl_loop_known_first:
  "f (length reqs) c = Some res \<Longrightarrow> draw_id res \<in> ex \<Longrightarrow> fst (crawl_loop f ex n c acc reqs) = acc"
  by (cases n) simp_all

lemma crawl_unknown: "list_all (\<lambda>r. draw_id r \<notin> ex) (crawl f m ex)"
  using crawl_loop_shape [of f ex "nat m" "[]" "[]" "[]"]
  by (auto simp: crawl_def crawl_trace_def)

lemma filter_crawl: "filter (\<lambda>r. draw_id r \<notin> ex) (crawl f m ex) = crawl f m ex"
  using crawl_unknown [of ex f m] by (simp add: list_all_iff)


lemma update_data_cases:
  assumes "update_data remote product pages file = Inr out"
  obtains config existing_data where
    "PRODUCTS product = Some config" "read_store file = Inr existing_data"
    "existing_data = store_lines file"
    "out = \<lparr>added = fst (merge_new existing_data (set (map draw_id existing_data))
                         (crawl (remote config) (pages * 10) (set (map draw_id existing_data)))),
            written = snd (merge_new existing_data (set (map draw_id existing_data))
                         (crawl (remote config) (pages * 10) (set (map draw_id existing_data)))),
            fetches = crawl_requests (remote config) (pages * 10) (set (map draw_id existing_data))\<rparr>"
  using assms
  by (auto simp: update_data_def read_store_def store_lines_def crawl_def crawl_requests_def Let_def
           split: option.splits sum.splits if_splits)

lemma merge_new_Nil: "merge_new existing ex [] = (0, None)"
  by (simp add: merge_new_def)

lemma merge_new_crawl:
  "merge_new existing ex (crawl f m ex) =
     (if crawl f m ex = [] then (0, None)
      else (length (crawl f m ex), Some (sort_key date (existing @ crawl f m ex))))"
  by (simp add: merge_new_def filter_crawl Let_def)

lemma second_run:
  assumes "update_data remote product pages file = Inr out"
  shows "\<exists>fs. update_data remote product pages (store_after file out)
            = Inr \<lparr>added = 0, written = None, fetches = fs\<rparr>"
proof -
  from assms obtain config existing_data where
    c: "PRODUCTS product = Some config" and r: "read_store file = Inr existing_data" and
    o: "out = \<lparr>added = fst (merge_new existing_data (set (map draw_id existing_data))
                         (crawl (remote config) (pages * 10) (set (map draw_id existing_data)))),
            written = snd (merge_new existing_data (set (map draw_id existing_data))
                         (crawl (remote config) (pages * 10) (set (map draw_id existing_data)))),
            fetches = crawl_requests (remote config) (pages * 10) (set (map draw_id existing_data))\<rparr>"
    by (rule update_data_cases)
  define ex where "ex = set (map draw_id existing_data)"
  define news where "news = crawl (remote config) (pages * 10) ex"
  show ?thesis
  proof (cases "news = []")
    case True
    then have "store_after file out = file"
      using o by (simp add: store_after_def merge_new_Nil ex_def news_def)
    moreover have "update_data remote product pages file
        = Inr \<lparr>added = 0, written = None, fetches = fetches out\<rparr>"
      using assms o True by (simp add: merge_new_Nil ex_def news_def)
    ultimately show ?thesis by auto
  next
    case False
    define S where "S = sort_key date (existing_data @ news)"
    have after: "store_after file out = Some S"
      using o False by (simp add: store_after_def merge_new_crawl ex_def news_def S_def)
    have "length S = length existing_data + length news" by (simp add: S_def)
    with False have "S \<noteq> []" by auto
    then have rd: "read_store (Some S) = Inr S" by (simp add: read_store_def)
    have ids: "set (map draw_id S) = ex \<union> set (map draw_id news)"
      by (simp add: S_def ex_def image_Un)
    from False obtain res where
      f: "remote config 0 [] = Some res" "0 < nat (pages * 10)"
         "draw_id (hd news) = draw_id res"
      using crawl_loop_first [of "remote config" ex "nat (pages * 10)" "[]" "[]"]
      by (auto simp: news_def crawl_def crawl_trace_def)
    have "draw_id res \<in> set (map draw_id S)"
      using f(3) False ids by (cases news) auto
    then have "crawl (remote config) (pages * 10) (set (map draw_id S)) = []"
      using crawl_loop_known_first [of "remote config" "[]" "[]" res "set (map draw_id S)"
               "nat (pages * 10)" "[]"] f(1)
      by (simp add: crawl_def crawl_trace_def)
    then show ?thesis
      using c rd after
      by (simp add: update_data_def merge_new_def Let_def crawl_def)
  qed
qed

lemma crawl_trace_shape:
  "length (crawl f m ex) \<le> length (crawl_requests f m ex) \<and>
   length (crawl_requests f m ex) \<le> nat m"
  using crawl_loop_shape [of f ex "nat m" "[]" "[]" "[]"]
  by (auto simp: crawl_def crawl_requests_def crawl_trace_def)

lemma update_outcome:
  assumes "update_data remote product pages file = Inr out"
      and "PRODUCTS product = Some config"
  shows "out = \<lparr>added = fst (merge_new (store_lines file) (set (map draw_id (store_lines file)))
                   (crawl (remote config) (pages * 10) (set (map draw_id (store_lines file))))),
           written = snd (merge_new (store_lines file) (set (map draw_id (store_lines file)))
                   (crawl (remote config) (pages * 10) (set (map draw_id (store_lines file))))),
           fetches = crawl_requests (remote config) (pages * 10)
                   (set (map draw_id (store_lines file)))\<rparr>"
  using assms by (elim update_data_cases) simp

lemma scenario_B_run:
  "update_data (\<lambda>config. remote_B) ''655'' 3 (Some store_B)
     = Inr \<lparr>added = 1, written = Some (store_B @ [draw_101]), fetches = ['''', ''100'']\<rparr>"
  by code_simp

lemma scenario_A_run:
  "update_data (\<lambda>config. remote_A) ''655'' 3 None
     = Inr \<lparr>added = 3, written = Some [draw_98, draw_99, draw_100],
            fetches = ['''', ''99'', ''98'']\<rparr>"
  by code_simp

text \<open>
  C1. If the id of a fetched record is in the known-id set, the walker stops at once:
  the iteration returns the accumulator as it was and no further request is made, so
  the record is not in the output; no record of the output of \<open>crawl\<close> has a known id.
  In scenario B (store ids 98, 99, 100; latest draw 101 linking to 100) the walker
  fetches the latest draw and draw 100, and update writes the three old records and
  record 101 and returns 1.
\<close>

theorem walker_stops_at_known_id:
  "(fetch (length requests) cursor = Some res \<and> draw_id res \<in> existing_ids \<longrightarrow>
      crawl_loop fetch existing_ids (Suc n) cursor all_data requests
        = (all_data, requests @ [cursor])) \<and>
   list_all (\<lambda>r. draw_id r \<notin> existing_ids) (crawl fetch max_records existing_ids) \<and>
   set (map draw_id store_B) = {''98'', ''99'', ''100''} \<and>
   update_data (\<lambda>config. remote_B) ''655'' 3 (Some store_B)
     = Inr \<lparr>added = 1, written = Some (store_B @ [draw_101]), fetches = ['''', ''100'']\<rparr>"
proof -
  have "set (map draw_id store_B) = {''98'', ''99'', ''100''}"
    by (simp add: fixture_defs)
  then show ?thesis
    using crawl_unknown [of existing_ids fetch max_records] scenario_B_run by simp
qed

theorem walker_stops_at_known_id_witness:
  "remote_B (length ([''''] :: string list)) ''100'' = Some (linked draw_100 (Some ''99'')) \<and>
   draw_id (linked draw_100 (Some ''99'')) \<in> set (map draw_id store_B) \<and>
   crawl_loop remote_B (set (map draw_id store_B)) (Suc 28) ''100'' [draw_101] ['''']
     = ([draw_101], [''''] @ [''100''])"
proof -
  have h: "remote_B (length ([''''] :: string list)) ''100'' = Some (linked draw_100 (Some ''99'')) \<and>
           draw_id (linked draw_100 (Some ''99'')) \<in> set (map draw_id store_B)"
    by (simp add: fixture_defs)
  from walker_stops_at_known_id
         [of remote_B "['''']" "''100''" "linked draw_100 (Some ''99'')"
             "set (map draw_id store_B)" 28 "[draw_101]"]
  have "remote_B (length ([''''] :: string list)) ''100'' = Some (linked draw_100 (Some ''99'')) \<and>
        draw_id (linked draw_100 (Some ''99'')) \<in> set (map draw_id store_B) \<longrightarrow>
        crawl_loop remote_B (set (map draw_id store_B)) (Suc 28) ''100'' [draw_101] ['''']
          = ([draw_101], [''''] @ [''100''])"
    by (rule conjunct1)
  with h show ?thesis by blast
qed

text \<open>
  C2. The walker makes at most \<open>max_records\<close> requests and returns at most
  \<open>max_records\<close> records (\<open>nat max_records\<close> is \<open>max_records\<close> for a bound that is
  not negative, and 0 otherwise: \<^verbatim>\<open>range\<close> is empty then). Against an unbroken chain
  that has a further draw behind each of the first \<open>max_records\<close> draws it returns
  exactly \<open>max_records\<close> records. \<open>crawl\<close> has no error branch: the source raises
  nowhere in it and \<^verbatim>\<open>fetch_draw\<close> catches what a fetch raises. Scenario C: bound 2
  against five chained draws returns the two newest.
\<close>

theorem walker_bound:
  "length (crawl_requests fetch max_records existing_ids) \<le> nat max_records \<and>
   length (crawl fetch max_records existing_ids) \<le> nat max_records \<and>
   (unbroken_chain fetch existing_ids (nat max_records) 0 [] \<longrightarrow>
      length (crawl fetch max_records existing_ids) = nat max_records \<and>
      length (crawl_requests fetch max_records existing_ids) = nat max_records) \<and>
   crawl remote_C 2 {} = [draw_102, draw_101]"
proof -
  have "crawl remote_C 2 {} = [draw_102, draw_101]"
    by code_simp
  moreover have "length (crawl fetch max_records existing_ids) \<le> nat max_records"
    using crawl_trace_shape [of fetch max_records existing_ids] by simp
  moreover have
    "length (crawl fetch max_records existing_ids) = nat max_records \<and>
     length (crawl_requests fetch max_records existing_ids) = nat max_records"
    if "unbroken_chain fetch existing_ids (nat max_records) 0 []"
    using crawl_loop_unbroken [of fetch existing_ids "nat max_records" "[]" "[]" "[]"] that
    by (simp add: crawl_def crawl_requests_def crawl_trace_def)
  ultimately show ?thesis
    using crawl_trace_shape [of fetch max_records existing_ids] by blast
qed

theorem walker_bound_witness:
  "unbroken_chain remote_C {} (nat 2) 0 [] \<and> length (crawl remote_C 2 {}) = nat 2 \<and>
   length (crawl_requests remote_C 2 {}) = nat 2"
proof -
  have h: "unbroken_chain remote_C {} (nat 2) 0 []"
    by (simp add: fixture_defs eval_nat_numeral)
  with walker_bound [of remote_C 2 "{}"] show ?thesis by blast
qed

section \<open>Properties of the date texts\<close>

text \<open>
  The decimal digits as characters, and numbers of two and of four digits: the order
  of their texts is the order of the numbers.
\<close>

lemma of_char_digit: "a < 10 \<Longrightarrow> of_char (char_of (48 + a) :: char) = 48 + (a::nat)"
  by simp

lemma digit_char_less:
  "a < 10 \<Longrightarrow> b < 10 \<Longrightarrow> ((char_of (48 + a) :: char) < char_of (48 + b)) = (a < (b::nat))"
  by (simp add: less_char_def)

lemma digit_char_eq:
  assumes "a < 10" and "b < 10"
  shows "((char_of (48 + a) :: char) = char_of (48 + b)) = (a = (b::nat))"
proof
  assume "(char_of (48 + a) :: char) = char_of (48 + b)"
  then have "(of_char (char_of (48 + a) :: char) :: nat) = of_char (char_of (48 + b) :: char)"
    by simp
  with assms show "a = b" by (simp only: of_char_digit)
qed simp

lemma char_zero: "CHR ''0'' = char_of (48::nat)"
proof -
  have "char_of (of_char CHR ''0'' :: nat) = CHR ''0''" by (rule char_of_char)
  then show ?thesis by simp
qed

lemma tens_units_less:
  "(n div 10 < n' div 10 \<or> n div 10 = n' div 10 \<and> n mod 10 < n' mod 10) = (n < (n'::nat))"
proof -
  define a r a' r' where "a = n div 10" and "r = n mod 10" and "a' = n' div 10" and "r' = n' mod 10"
  then have "n = 10 * a + r" and "r < 10" and "n' = 10 * a' + r'" and "r' < 10"
    by simp_all
  then have "(a < a' \<or> a = a' \<and> r < r') = (n < n')"
    by auto
  then show ?thesis
    by (simp only: a_def r_def a'_def r'_def)
qed

lemma tens_units_eq:
  "(n div 10 = n' div 10 \<and> n mod 10 = n' mod 10) = (n = (n'::nat))"
proof
  assume "n div 10 = n' div 10 \<and> n mod 10 = n' mod 10"
  then show "n = n'" by (metis div_mult_mod_eq)
qed simp

lemma decimal_digit: "n < 10 \<Longrightarrow> decimal n = [char_of (48 + n)]"
  by (subst decimal.simps) simp

lemma decimal_step: "10 \<le> n \<Longrightarrow> decimal n = decimal (n div 10) @ [char_of (48 + n mod 10)]"
  by (subst decimal.simps) simp

lemma decimal_two:
  assumes "10 \<le> n" and "n < 100"
  shows "decimal n = [char_of (48 + n div 10), char_of (48 + n mod 10)]"
proof -
  from assms have "n div 10 < 10" by simp
  with assms(1) show ?thesis by (simp add: decimal_step decimal_digit del: decimal.simps)
qed

lemma zero_pad_two:
  assumes "n < 100"
  shows "zero_pad 2 (decimal n) = [char_of (48 + n div 10), char_of (48 + n mod 10)]"
proof (cases "n < 10")
  case True
  then show ?thesis by (simp add: decimal_digit zero_pad_def char_zero del: decimal.simps)
next
  case False
  with assms show ?thesis by (simp add: decimal_two zero_pad_def del: decimal.simps)
qed


lemma decimal_four:
  assumes "1000 \<le> n" and "n \<le> 9999"
  shows "decimal n = [char_of (48 + n div 1000), char_of (48 + n div 100 mod 10),
                      char_of (48 + n div 10 mod 10), char_of (48 + n mod 10)]"
proof -
  from assms have 1: "10 \<le> n" and 2: "10 \<le> n div 10" and 3: "10 \<le> n div 10 div 10"
    and 4: "n div 10 div 10 div 10 < 10"
    by simp_all
  have 5: "n div 10 div 10 = n div 100" and 6: "n div 100 div 10 = n div 1000"
    by (simp_all add: div_mult2_eq [symmetric])
  from 1 have "decimal n = decimal (n div 10) @ [char_of (48 + n mod 10)]"
    by (rule decimal_step)
  also from 2 have "decimal (n div 10) = decimal (n div 10 div 10) @ [char_of (48 + n div 10 mod 10)]"
    by (rule decimal_step)
  also from 3 have "decimal (n div 10 div 10)
      = decimal (n div 10 div 10 div 10) @ [char_of (48 + n div 10 div 10 mod 10)]"
    by (rule decimal_step)
  also from 4 have "decimal (n div 10 div 10 div 10) = [char_of (48 + n div 10 div 10 div 10)]"
    by (rule decimal_digit)
  finally show ?thesis
    by (simp only: 5 6 append_Cons append_Nil)
qed

lemma two_digits_less:
  assumes "n < 100" and "n' < 100"
  shows "(zero_pad 2 (decimal n) < zero_pad 2 (decimal n')) = (n < n')"
    and "(zero_pad 2 (decimal n) = zero_pad 2 (decimal n')) = (n = n')"
    and "length (zero_pad 2 (decimal n)) = 2"
proof -
  from assms have b: "n div 10 < 10" "n mod 10 < 10" "n' div 10 < 10" "n' mod 10 < 10"
    by simp_all
  have "(zero_pad 2 (decimal n) < zero_pad 2 (decimal n'))
      = (n div 10 < n' div 10 \<or> n div 10 = n' div 10 \<and> n mod 10 < n' mod 10)"
    using assms b by (simp add: zero_pad_two digit_char_less digit_char_eq del: decimal.simps)
  then show "(zero_pad 2 (decimal n) < zero_pad 2 (decimal n')) = (n < n')"
    by (simp only: tens_units_less)
  have "(zero_pad 2 (decimal n) = zero_pad 2 (decimal n'))
      = (n div 10 = n' div 10 \<and> n mod 10 = n' mod 10)"
    using assms b by (simp add: zero_pad_two digit_char_eq del: decimal.simps)
  then show "(zero_pad 2 (decimal n) = zero_pad 2 (decimal n')) = (n = n')"
    by (simp only: tens_units_eq)
  from assms show "length (zero_pad 2 (decimal n)) = 2"
    by (simp add: zero_pad_two del: decimal.simps)
qed

lemma four_digits_less:
  assumes "1000 \<le> n" and "n \<le> 9999" and "1000 \<le> n'" and "n' \<le> 9999"
  shows "(decimal n < decimal n') = (n < n')"
    and "(decimal n = decimal n') = (n = n')"
    and "length (decimal n) = 4"
proof -
  from assms have b: "n div 1000 < 10" "n div 100 mod 10 < 10" "n div 10 mod 10 < 10" "n mod 10 < 10"
     "n' div 1000 < 10" "n' div 100 mod 10 < 10" "n' div 10 mod 10 < 10" "n' mod 10 < 10"
    by simp_all
  have d: "n div 10 div 10 = n div 100" "n div 100 div 10 = n div 1000"
          "n' div 10 div 10 = n' div 100" "n' div 100 div 10 = n' div 1000"
    by (simp_all add: div_mult2_eq [symmetric])
  have l1: "(n < n') = (n div 10 < n' div 10 \<or> n div 10 = n' div 10 \<and> n mod 10 < n' mod 10)"
    by (rule tens_units_less [symmetric])
  have l2: "(n div 10 < n' div 10)
      = (n div 100 < n' div 100 \<or> n div 100 = n' div 100 \<and> n div 10 mod 10 < n' div 10 mod 10)"
    using tens_units_less [of "n div 10" "n' div 10"] by (simp only: d)
  have l3: "(n div 100 < n' div 100)
      = (n div 1000 < n' div 1000 \<or> n div 1000 = n' div 1000 \<and> n div 100 mod 10 < n' div 100 mod 10)"
    using tens_units_less [of "n div 100" "n' div 100"] by (simp only: d)
  have e1: "(n = n') = (n div 10 = n' div 10 \<and> n mod 10 = n' mod 10)"
    by (rule tens_units_eq [symmetric])
  have e2: "(n div 10 = n' div 10)
      = (n div 100 = n' div 100 \<and> n div 10 mod 10 = n' div 10 mod 10)"
    using tens_units_eq [of "n div 10" "n' div 10"] by (simp only: d)
  have e3: "(n div 100 = n' div 100)
      = (n div 1000 = n' div 1000 \<and> n div 100 mod 10 = n' div 100 mod 10)"
    using tens_units_eq [of "n div 100" "n' div 100"] by (simp only: d)
  have L: "(decimal n < decimal n')
      = (n div 1000 < n' div 1000 \<or> n div 1000 = n' div 1000 \<and>
          (n div 100 mod 10 < n' div 100 mod 10 \<or> n div 100 mod 10 = n' div 100 mod 10 \<and>
            (n div 10 mod 10 < n' div 10 mod 10 \<or> n div 10 mod 10 = n' div 10 mod 10 \<and>
               n mod 10 < n' mod 10)))"
    using b by (simp add: decimal_four assms digit_char_less digit_char_eq del: decimal.simps)
  from L l1 l2 l3 e2 e3 show "(decimal n < decimal n') = (n < n')"
    by blast
  have E: "(decimal n = decimal n')
      = (n div 1000 = n' div 1000 \<and> n div 100 mod 10 = n' div 100 mod 10 \<and>
         n div 10 mod 10 = n' div 10 mod 10 \<and> n mod 10 = n' mod 10)"
    using b by (simp add: decimal_four assms digit_char_eq del: decimal.simps)
  from E e1 e2 e3 show "(decimal n = decimal n') = (n = n')"
    by blast
  from assms show "length (decimal n) = 4"
    by (simp add: decimal_four del: decimal.simps)
qed

lemma lex_append_le:
  fixes xs ys us vs :: string
  assumes "length xs = length ys"
  shows "(xs @ us \<le> ys @ vs) = (xs < ys \<or> xs = ys \<and> us \<le> vs)"
  using assms by (induction xs ys rule: list_induct2) auto

lemma days_in_month_le: "days_in_month y m \<le> 31"
  by (simp add: days_in_month_def)

text \<open>
  Among dates of the calendar whose year has four digits, the order of the texts that
  \<^verbatim>\<open>strftime\<close> writes is the order of the calendar.
\<close>

lemma strftime_le_iff:
  assumes "four_digit_date a" and "four_digit_date b"
  shows "(strftime a \<le> strftime b) = calendar_le a b"
proof -
  obtain y m d where a: "a = (y, m, d)" by (cases a) auto
  obtain y' m' d' where b: "b = (y', m', d')" by (cases b) auto
  from assms a b have y: "1000 \<le> y" "y \<le> 9999" "1000 \<le> y'" "y' \<le> 9999"
    by (simp_all add: four_digit_date_def)
  from assms a b days_in_month_le [of y m] days_in_month_le [of y' m']
  have md: "m < 100" "m' < 100" "d < 100" "d' < 100"
    by (simp_all add: four_digit_date_def)
  have "(strftime a \<le> strftime b)
      = (decimal y < decimal y' \<or> decimal y = decimal y' \<and>
          (zero_pad 2 (decimal m) < zero_pad 2 (decimal m') \<or>
           zero_pad 2 (decimal m) = zero_pad 2 (decimal m') \<and>
             zero_pad 2 (decimal d) \<le> zero_pad 2 (decimal d')))"
    using four_digits_less(3) [OF y] four_digits_less(3) [OF y(3,4) y(1,2)]
          two_digits_less(3) [OF md(1,2)] two_digits_less(3) [OF md(2,1)]
    by (simp add: a b strftime_def lex_append_le del: decimal.simps)
  also have "\<dots> = (y < y' \<or> y = y' \<and> (m < m' \<or> m = m' \<and> d \<le> d'))"
    using four_digits_less(1,2) [OF y] two_digits_less(1,2) [OF md(1,2)]
          two_digits_less(1,2) [OF md(3,4)]
    by (simp add: le_less del: decimal.simps)
  finally show ?thesis
    by (simp add: a b calendar_le_def)
qed

section \<open>Properties of update\<close>

text \<open>
  C3, as the claim states it, fails: the sort is by date and is not strict. With the
  store of scenario B and a remote whose latest draw has a new id, 103, and the date
  of draw 100, update writes two consecutive lines that share a date. (The remote's
  answer is a record the parser returns: \<open>soup_103_parsed\<close>.)
\<close>

theorem strictly_ascending_counterexample:
  "sorted_wrt (<) (map date store_B) \<and>
   update_data (\<lambda>config. remote_same_date) ''655'' 3 (Some store_B)
     = Inr \<lparr>added = 1, written = Some [draw_98, draw_99, draw_100, draw_103],
            fetches = ['''']\<rparr> \<and>
   date draw_100 = date draw_103 \<and>
   \<not> sorted_wrt (<) (map date [draw_98, draw_99, draw_100, draw_103])"
  by code_simp

text \<open>
  The order of the lines is the order of their date texts, as Python compares
  strings, and not the order of the calendar: a draw dated in the year 999 is
  recorded as \<^verbatim>\<open>999-01-01\<close> and written after the draws of 2026.
\<close>

lemma year_999_written_last:
  "update_data (\<lambda>config. remote_year_999) ''655'' 3 (Some store_B)
     = Inr \<lparr>added = 1, written = Some [draw_98, draw_99, draw_100, draw_104],
            fetches = ['''']\<rparr> \<and>
   map date [draw_98, draw_99, draw_100, draw_104]
     = map strftime [(2026, 1, 7), (2026, 1, 9), (2026, 1, 11), (999, 1, 1)] \<and>
   sorted (map date [draw_98, draw_99, draw_100, draw_104]) \<and>
   \<not> sorted_wrt calendar_le [(2026, 1, 7), (2026, 1, 9), (2026, 1, 11), (999, 1, 1)]"
proof -
  have "update_data (\<lambda>config. remote_year_999) ''655'' 3 (Some store_B)
     = Inr \<lparr>added = 1, written = Some [draw_98, draw_99, draw_100, draw_104],
            fetches = ['''']\<rparr> \<and>
   map date [draw_98, draw_99, draw_100, draw_104]
     = map strftime [(2026, 1, 7), (2026, 1, 9), (2026, 1, 11), (999, 1, 1)] \<and>
   sorted (map date [draw_98, draw_99, draw_100, draw_104])"
    by code_simp
  moreover have "\<not> sorted_wrt calendar_le [(2026, 1, 7), (2026, 1, 9), (2026, 1, 11), (999, 1, 1)]"
    by (simp add: calendar_le_def)
  ultimately show ?thesis by blast
qed

text \<open>
  C3, amended. After a call to update that writes the store, the lines written are
  ascending, not strictly, by their date texts in the order in which Python compares
  strings: no line is out of that order; consecutive lines may share a date. When
  the dates of all lines are dates of the calendar whose year has four digits, the
  lines are ascending by calendar date.
\<close>

theorem store_ascending_by_date:
  assumes "update_data remote product pages file = Inr out" and "written out = Some ls"
  shows "sorted (map date ls) \<and>
         (map date ls = map strftime ymds \<and> list_all four_digit_date ymds \<longrightarrow>
            sorted_wrt calendar_le ymds)"
proof -
  from assms(1) obtain config existing_data where
    "out = \<lparr>added = fst (merge_new existing_data (set (map draw_id existing_data))
                         (crawl (remote config) (pages * 10) (set (map draw_id existing_data)))),
            written = snd (merge_new existing_data (set (map draw_id existing_data))
                         (crawl (remote config) (pages * 10) (set (map draw_id existing_data)))),
            fetches = crawl_requests (remote config) (pages * 10) (set (map draw_id existing_data))\<rparr>"
    by (rule update_data_cases)
  with assms(2) have s: "sorted (map date ls)"
    by (auto simp: merge_new_crawl split: if_splits)
  have "sorted_wrt calendar_le ymds"
    if h: "map date ls = map strftime ymds \<and> list_all four_digit_date ymds"
  proof -
    from s h have "sorted_wrt (\<lambda>a b. strftime a \<le> strftime b) ymds"
      by (simp add: sorted_map)
    moreover have "calendar_le a b"
      if "a \<in> set ymds" and "b \<in> set ymds" and "strftime a \<le> strftime b" for a b
      using that h strftime_le_iff [of a b] by (simp add: list_all_iff)
    ultimately show ?thesis
      by (rule sorted_wrt_mono_rel [rotated])
  qed
  with s show ?thesis by blast
qed

theorem store_ascending_by_date_witness:
  "update_data (\<lambda>config. remote_B) ''655'' 3 (Some store_B)
     = Inr \<lparr>added = 1, written = Some (store_B @ [draw_101]), fetches = ['''', ''100'']\<rparr> \<and>
   sorted (map date (store_B @ [draw_101])) \<and>
   map date (store_B @ [draw_101])
     = map strftime [(2026, 1, 7), (2026, 1, 9), (2026, 1, 11), (2026, 1, 14)] \<and>
   list_all four_digit_date [(2026, 1, 7), (2026, 1, 9), (2026, 1, 11), (2026, 1, 14)] \<and>
   sorted_wrt calendar_le [(2026, 1, 7), (2026, 1, 9), (2026, 1, 11), (2026, 1, 14)]"
proof -
  have d: "map date (store_B @ [draw_101])
             = map strftime [(2026, 1, 7), (2026, 1, 9), (2026, 1, 11), (2026, 1, 14)]"
    by code_simp
  have f: "list_all four_digit_date [(2026, 1, 7), (2026, 1, 9), (2026, 1, 11), (2026, 1, 14)]"
    by (simp add: four_digit_date_def days_in_month_def)
  from store_ascending_by_date
         [OF scenario_B_run, of "store_B @ [draw_101]"
             "[(2026, 1, 7), (2026, 1, 9), (2026, 1, 11), (2026, 1, 14)]"]
  have "sorted (map date (store_B @ [draw_101])) \<and>
        (map date (store_B @ [draw_101])
           = map strftime [(2026, 1, 7), (2026, 1, 9), (2026, 1, 11), (2026, 1, 14)] \<and>
         list_all four_digit_date [(2026, 1, 7), (2026, 1, 9), (2026, 1, 11), (2026, 1, 14)] \<longrightarrow>
           sorted_wrt calendar_le [(2026, 1, 7), (2026, 1, 9), (2026, 1, 11), (2026, 1, 14)])"
    by simp
  with d f scenario_B_run show ?thesis by blast
qed

text \<open>
  C4. When a call to update has returned, a second call against the same remote, on
  the store the first call left, returns 0 and writes nothing: the store file is the
  one the first call left, line for line.
\<close>

theorem update_idempotent:
  assumes "update_data remote product pages file = Inr out"
  shows "\<exists>out'. update_data remote product pages (store_after file out) = Inr out' \<and>
           added out' = 0 \<and> written out' = None \<and>
           store_after (store_after file out) out' = store_after file out"
proof -
  from second_run [OF assms] obtain fs where
    "update_data remote product pages (store_after file out)
       = Inr \<lparr>added = 0, written = None, fetches = fs\<rparr>" ..
  then show ?thesis by (simp add: store_after_def)
qed

theorem update_idempotent_witness:
  "update_data (\<lambda>config. remote_B) ''655'' 3 (Some store_B)
     = Inr \<lparr>added = 1, written = Some (store_B @ [draw_101]), fetches = ['''', ''100'']\<rparr> \<and>
   (\<exists>out'. update_data (\<lambda>config. remote_B) ''655'' 3 (Some (store_B @ [draw_101])) = Inr out' \<and>
      added out' = 0 \<and> written out' = None \<and>
      store_after (Some (store_B @ [draw_101])) out' = Some (store_B @ [draw_101]))"
  using update_idempotent [OF scenario_B_run] scenario_B_run
  by (simp add: store_after_def)

text \<open>
  C8. When update returns, the requests made are those of the walker run with the
  bound \<open>pages * 10\<close> and the ids of the store as known ids, so there are at most
  \<open>pages * 10\<close> of them; the number returned is the number of lines the store has
  gained, and the store then holds the records it held and the records the walker
  returned.
\<close>

theorem update_returns_count:
  assumes "update_data remote product pages file = Inr out"
      and "PRODUCTS product = Some config"
  shows "fetches out = crawl_requests (remote config) (pages * 10)
                         (set (map draw_id (store_lines file))) \<and>
         length (fetches out) \<le> nat (pages * 10) \<and>
         added out = length (crawl (remote config) (pages * 10)
                         (set (map draw_id (store_lines file)))) \<and>
         length (store_lines (store_after file out)) = length (store_lines file) + added out \<and>
         set (store_lines (store_after file out))
           = set (store_lines file) \<union> set (crawl (remote config) (pages * 10)
                         (set (map draw_id (store_lines file))))"
proof -
  define news where
    "news = crawl (remote config) (pages * 10) (set (map draw_id (store_lines file)))"
  have o: "out = \<lparr>added = fst (merge_new (store_lines file)
                          (set (map draw_id (store_lines file))) news),
                 written = snd (merge_new (store_lines file)
                          (set (map draw_id (store_lines file))) news),
                 fetches = crawl_requests (remote config) (pages * 10)
                          (set (map draw_id (store_lines file)))\<rparr>"
    unfolding news_def using assms by (rule update_outcome)
  have m: "merge_new (store_lines file) (set (map draw_id (store_lines file))) news =
     (if news = [] then (0, None)
      else (length news, Some (sort_key date (store_lines file @ news))))"
    unfolding news_def by (rule merge_new_crawl)
  have 1: "fetches out = crawl_requests (remote config) (pages * 10)
                         (set (map draw_id (store_lines file)))"
    using o by simp
  have 2: "length (fetches out) \<le> nat (pages * 10)"
    unfolding 1 using crawl_trace_shape by blast
  have 3: "added out = length news"
    using o m by simp
  have after: "store_lines (store_after file out) =
     (if news = [] then store_lines file else sort_key date (store_lines file @ news))"
    using o m by (simp add: store_after_def store_lines_def)
  have 4: "length (store_lines (store_after file out)) = length (store_lines file) + added out"
    unfolding after 3 by simp
  have 5: "set (store_lines (store_after file out)) = set (store_lines file) \<union> set news"
    unfolding after by simp
  from 1 2 3 4 5 show ?thesis unfolding news_def by blast
qed

theorem update_returns_count_witness:
  "update_data (\<lambda>config. remote_B) ''655'' 3 (Some store_B)
     = Inr \<lparr>added = 1, written = Some (store_B @ [draw_101]), fetches = ['''', ''100'']\<rparr> \<and>
   PRODUCTS ''655'' = Some POWER_655_CONFIG \<and>
   length (fetches \<lparr>added = 1, written = Some (store_B @ [draw_101]),
                     fetches = ['''', ''100'']\<rparr>) \<le> nat (3 * 10) \<and>
   length (store_lines (store_after (Some store_B)
             \<lparr>added = 1, written = Some (store_B @ [draw_101]), fetches = ['''', ''100'']\<rparr>))
     = length (store_lines (Some store_B))
       + added \<lparr>added = 1, written = Some (store_B @ [draw_101]), fetches = ['''', ''100'']\<rparr>"
proof -
  have p: "PRODUCTS ''655'' = Some POWER_655_CONFIG"
    by (simp add: PRODUCTS_def)
  from update_returns_count [OF scenario_B_run p] scenario_B_run p
  show ?thesis by blast
qed




text \<open>
  C10. If the walker returned no record, or only records whose ids are known, the
  merge returns 0 and opens no file for writing; so does update, and the store file
  is what it was. (The walker returns no record with a known id, so for update the
  two cases are one.)
\<close>

theorem no_new_records_no_write:
  "(new_data = [] \<or> list_all (\<lambda>r. draw_id r \<in> existing_ids) new_data \<longrightarrow>
      merge_new existing_data existing_ids new_data = (0, None)) \<and>
   (PRODUCTS product = Some config \<and> read_store file = Inr existing_data \<and>
    (crawl (remote config) (pages * 10) (set (map draw_id existing_data)) = [] \<or>
     list_all (\<lambda>r. draw_id r \<in> set (map draw_id existing_data))
       (crawl (remote config) (pages * 10) (set (map draw_id existing_data)))) \<longrightarrow>
    (\<exists>fs. update_data remote product pages file = Inr \<lparr>added = 0, written = None, fetches = fs\<rparr>
       \<and> store_after file \<lparr>added = 0, written = None, fetches = fs\<rparr> = file))"
proof -
  have m: "merge_new existing_data existing_ids new_data = (0, None)"
    if "new_data = [] \<or> list_all (\<lambda>r. draw_id r \<in> existing_ids) new_data"
    for existing_ids new_data
  proof -
    from that have "filter (\<lambda>r. draw_id r \<notin> existing_ids) new_data = []"
      by (auto simp: list_all_iff filter_empty_conv)
    then show ?thesis by (simp add: merge_new_def)
  qed
  show ?thesis
    using m by (auto simp: update_data_def crawl_def store_after_def Let_def)
qed

theorem no_new_records_no_write_witness:
  "list_all (\<lambda>r. draw_id r \<in> set (map draw_id store_B)) [draw_100, draw_99] \<and>
   merge_new (store_B @ [draw_101]) (set (map draw_id store_B)) [draw_100, draw_99] = (0, None) \<and>
   PRODUCTS ''655'' = Some POWER_655_CONFIG \<and>
   read_store (Some (store_B @ [draw_101])) = Inr (store_B @ [draw_101]) \<and>
   crawl remote_B (3 * 10) (set (map draw_id (store_B @ [draw_101]))) = [] \<and>
   (\<exists>fs. update_data (\<lambda>config. remote_B) ''655'' 3 (Some (store_B @ [draw_101]))
            = Inr \<lparr>added = 0, written = None, fetches = fs\<rparr>)"
proof -
  have a: "list_all (\<lambda>r. draw_id r \<in> set (map draw_id store_B)) [draw_100, draw_99]"
    by (simp add: fixture_defs)
  have p: "PRODUCTS ''655'' = Some POWER_655_CONFIG"
    by (simp add: PRODUCTS_def)
  have r: "read_store (Some (store_B @ [draw_101])) = Inr (store_B @ [draw_101])"
    by (simp add: read_store_def)
  have c: "crawl remote_B (3 * 10) (set (map draw_id (store_B @ [draw_101]))) = []"
    by code_simp
  from no_new_records_no_write
         [of "[draw_100, draw_99]" "set (map draw_id store_B)" "store_B @ [draw_101]" "''655''"
             POWER_655_CONFIG "Some (store_B @ [draw_101])" "\<lambda>config. remote_B" 3]
       a p r c
  show ?thesis by blast
qed

end
